theory Spec2Isabelle
  imports Main
begin

section \<open>Python values and strings\<close>

text \<open>
  Strings are lists of characters with code points below 256; every literal of the
  program is ASCII. The values a configuration mapping holds are \<open>None\<close>, booleans,
  integers and strings.
\<close>

datatype pyval = PyNone | PyBool bool | PyInt int | PyStr string

fun str_nat :: "nat \<Rightarrow> string" where
  "str_nat n =
     (if n < 10 then [char_of (48 + n)]
      else str_nat (n div 10) @ [char_of (48 + n mod 10)])"

declare str_nat.simps [simp del]

definition str_int :: "int \<Rightarrow> string" where
  "str_int i = (if i < 0 then CHR ''-'' # str_nat (nat (- i)) else str_nat (nat i))"

text \<open>\<open>str(v)\<close>.\<close>

fun py_str :: "pyval \<Rightarrow> string" where
  "py_str PyNone = ''None''"
| "py_str (PyBool True) = ''True''"
| "py_str (PyBool False) = ''False''"
| "py_str (PyInt i) = str_int i"
| "py_str (PyStr s) = s"

text \<open>
  \<open>str.lower()\<close> on code points below 256: the ASCII capitals and the Latin-1
  capitals \<open>0xC0..0xDE\<close> without the multiplication sign \<open>0xD7\<close> move up by 32.
\<close>

definition lower_char :: "char \<Rightarrow> char" where
  "lower_char c =
     (let n = (of_char c :: nat) in
      if (65 \<le> n \<and> n \<le> 90) \<or> (192 \<le> n \<and> n \<le> 222 \<and> n \<noteq> 215)
      then char_of (n + 32) else c)"

definition lower :: "string \<Rightarrow> string" where
  "lower s = map lower_char s"

section \<open>The file system, the environment and the trace of a run\<close>

text \<open>
  A path is the list of its components below the working directory; \<open>[]\<close> is the
  working directory itself, which always exists. A file system maps the paths that
  exist to a directory or to a file with its text.
\<close>

type_synonym path = "string list"

datatype node = Dir | File string

type_synonym fs = "path \<rightharpoonup> node"

fun join_path :: "path \<Rightarrow> string" where
  "join_path [] = ''.''"
| "join_path [n] = n"
| "join_path (n # m # ns) = n @ ''/'' @ join_path (m # ns)"

definition is_dir :: "fs \<Rightarrow> path \<Rightarrow> bool" where
  "is_dir f p = (p = [] \<or> f p = Some Dir)"

definition exists_path :: "fs \<Rightarrow> path \<Rightarrow> bool" where
  "exists_path f p = (p = [] \<or> f p \<noteq> None)"

text \<open>The exceptions the modelled code can raise.\<close>

datatype exn =
    TyperExit int
  | KeyError string
  | FileNotFoundError
  | FileExistsError
  | NotADirectoryError
  | IsADirectoryError
  | CalledProcessError
  | OSError
  | UnicodeDecodeError

text \<open>
  What a run does to the outside, in order. \<open>LogError m e\<close> is \<open>logger.error\<close> with
  the message \<open>m\<close> followed by the text of the exception \<open>e\<close>.
\<close>

datatype event =
    LoggerSetLevel string
  | LogInfo string
  | LogError string exn
  | Popen string
  | ErrPrint string
  | PrintCmd "string list"
  | AgentCall pyval pyval
  | CheckOutput "string list"
  | SubprocessRun "string list" path
  | Rmtree path
  | Mkdir path
  | WriteFile path string

record world =
  files :: fs
  environ :: "string \<rightharpoonup> string"
  trace :: "event list"

text \<open>
  A statement runs on a world and either completes (\<open>None\<close>) or raises; the world it
  leaves is kept in both cases. \<open>seq\<close> runs statements in order and stops at the first
  one that raises.
\<close>

type_synonym stmt = "world \<Rightarrow> exn option \<times> world"

fun seq :: "stmt list \<Rightarrow> stmt" where
  "seq [] w = (None, w)"
| "seq (s # ss) w =
     (case s w of
        (None, w') \<Rightarrow> seq ss w'
      | (Some e, w') \<Rightarrow> (Some e, w'))"

definition emit :: "event \<Rightarrow> stmt" where
  "emit ev w = (None, w\<lparr>trace := trace w @ [ev]\<rparr>)"

definition raise :: "exn \<Rightarrow> stmt" where
  "raise e w = (Some e, w)"

definition skip :: stmt where
  "skip w = (None, w)"

definition setenv :: "string \<Rightarrow> string \<Rightarrow> stmt" where
  "setenv k v w = (None, w\<lparr>environ := (environ w)(k \<mapsto> v)\<rparr>)"

section \<open>The configuration resolver: \<open>start\<close>\<close>

text \<open>
  \<open>read_config()\<close> returns a mapping with the two sections \<open>agent\<close> and \<open>config\<close>,
  each a mapping from keys to values. It is a parameter of the model.
\<close>

type_synonym table = "string \<rightharpoonup> pyval"

record effective_config =
  agent_sec :: table
  config_sec :: table

text \<open>
  The arguments \<open>start\<close> receives. \<open>prompt\<close> and \<open>url\<close> may be \<open>None\<close>, which the code
  tests for.
\<close>

record cli_args =
  prompt :: "string option"
  url :: "string option"
  clean :: bool
  debug :: bool
  headless :: bool
  language :: string
  framework :: string

text \<open>
  What the command line passes. The signature of \<open>start\<close> gives \<open>prompt\<close> and \<open>url\<close>
  no default, so they are required options and the body runs only when both are given.
  The other options may be left out (\<open>None\<close>): \<open>clean\<close>, \<open>debug\<close> and \<open>headless\<close> have
  the default \<open>False\<close>, \<open>language\<close> the default \<open>"python"\<close> and \<open>framework\<close> the default
  \<open>"playwright"\<close>.
\<close>

record cli_call =
  given_prompt :: string
  given_url :: string
  given_clean :: "bool option"
  given_debug :: "bool option"
  given_headless :: "bool option"
  given_language :: "string option"
  given_framework :: "string option"

definition bind_defaults :: "cli_call \<Rightarrow> cli_args" where
  "bind_defaults c =
     \<lparr> prompt = Some (given_prompt c),
       url = Some (given_url c),
       clean = (case given_clean c of None \<Rightarrow> False | Some b \<Rightarrow> b),
       debug = (case given_debug c of None \<Rightarrow> False | Some b \<Rightarrow> b),
       headless = (case given_headless c of None \<Rightarrow> False | Some b \<Rightarrow> b),
       language = (case given_language c of None \<Rightarrow> ''python'' | Some s \<Rightarrow> s),
       framework = (case given_framework c of None \<Rightarrow> ''playwright'' | Some s \<Rightarrow> s) \<rparr>"

text \<open>Lines 50 to 63: the overrides, one \<open>if\<close> after the other.\<close>

definition set_agent :: "string \<Rightarrow> pyval \<Rightarrow> effective_config \<Rightarrow> effective_config" where
  "set_agent k v c = c\<lparr>agent_sec := (agent_sec c)(k \<mapsto> v)\<rparr>"

definition set_config :: "string \<Rightarrow> pyval \<Rightarrow> effective_config \<Rightarrow> effective_config" where
  "set_config k v c = c\<lparr>config_sec := (config_sec c)(k \<mapsto> v)\<rparr>"

definition merge :: "cli_args \<Rightarrow> effective_config \<Rightarrow> effective_config" where
  "merge a c0 =
     (let c1 = (case prompt a of None \<Rightarrow> c0 | Some p \<Rightarrow> set_agent ''prompt'' (PyStr p) c0);
          c2 = (case url a of None \<Rightarrow> c1 | Some u \<Rightarrow> set_agent ''url'' (PyStr u) c1);
          c3 = (if headless a then set_config ''headless'' (PyBool (headless a)) c2 else c2);
          c4 = (if debug a then set_config ''log_level'' (PyStr ''DEBUG'') c3 else c3);
          c5 = (if clean a then set_config ''clean'' (PyBool (clean a)) c4 else c4);
          c6 = (if language a \<noteq> [] then set_agent ''language'' (PyStr (language a)) c5 else c5);
          c7 = (if framework a \<noteq> [] then set_agent ''framework'' (PyStr (framework a)) c6 else c6)
      in c7)"

text \<open>
  Line 75 hands \<open>rm -rf TEST_DIR/*\<close> to \<open>/bin/sh\<close>. The shell takes a name as it is
  when it is made of letters, digits, \<open>_\<close>, \<open>-\<close> and \<open>.\<close> only; a name that begins with
  \<open>-\<close> would be read by \<open>rm\<close> as an option, and \<open>.\<close> and \<open>..\<close> are not names of
  entries. \<open>plain_path\<close> holds of the paths made of such names.
\<close>

definition plain_char :: "char \<Rightarrow> bool" where
  "plain_char c =
     (let n = (of_char c :: nat) in
      (48 \<le> n \<and> n \<le> 57) \<or> (65 \<le> n \<and> n \<le> 90) \<or> (97 \<le> n \<and> n \<le> 122)
      \<or> c = CHR ''_'' \<or> c = CHR ''-'' \<or> c = CHR ''.'')"

fun plain_name :: "string \<Rightarrow> bool" where
  "plain_name [] = False"
| "plain_name (c # cs) =
     (c \<noteq> CHR ''-'' \<and> list_all plain_char (c # cs) \<and> c # cs \<noteq> ''.'' \<and> c # cs \<noteq> ''..'')"

definition plain_path :: "path \<Rightarrow> bool" where
  "plain_path d = list_all plain_name d"

text \<open>
  For a plain path the pattern \<open>TEST_DIR/*\<close> expands to the entries of the directory
  whose names do not begin with a dot, and \<open>rm -rf\<close> removes each of them with
  everything below it; when nothing matches, the pattern stays as it is and \<open>rm -f\<close>
  ignores the missing operand. \<open>popen_rm_rf\<close> is line 75 for a plain path; what the
  shell makes of another command line is not modelled.
\<close>

fun glob_star :: "string \<Rightarrow> bool" where
  "glob_star [] = False"
| "glob_star (c # cs) = (c \<noteq> CHR ''.'')"

definition rm_rf_glob :: "path \<Rightarrow> fs \<Rightarrow> fs" where
  "rm_rf_glob d f =
     (\<lambda>p. if length d < length p \<and> take (length d) p = d \<and> glob_star (p ! length d)
          then None else f p)"

definition popen_rm_rf :: "path \<Rightarrow> stmt" where
  "popen_rm_rf d w =
     (None, w\<lparr>files := rm_rf_glob d (files w),
             trace := trace w @ [Popen (''rm -rf '' @ join_path d @ ''/*'')]\<rparr>)"

text \<open>Lines 66 to 75: the actions the configuration asks for.\<close>

definition apply_log_level :: "effective_config \<Rightarrow> stmt" where
  "apply_log_level c =
     (case config_sec c ''log_level'' of
        None \<Rightarrow> raise (KeyError ''log_level'')
      | Some v \<Rightarrow>
          if lower (py_str v) = ''debug''
          then seq [emit (LoggerSetLevel ''DEBUG''), setenv ''LOG_LEVEL'' ''DEBUG'']
          else skip)"

definition apply_headless :: "effective_config \<Rightarrow> stmt" where
  "apply_headless c =
     (case config_sec c ''headless'' of
        None \<Rightarrow> raise (KeyError ''headless'')
      | Some v \<Rightarrow>
          if lower (py_str v) = ''true'' then setenv ''HEADLESS'' ''true'' else skip)"

definition apply_clean :: "path \<Rightarrow> effective_config \<Rightarrow> stmt" where
  "apply_clean TEST_DIR c =
     (case config_sec c ''clean'' of
        None \<Rightarrow> raise (KeyError ''clean'')
      | Some v \<Rightarrow>
          if lower (py_str v) = ''true''
          then seq [emit (LogInfo (''Deleting files in the '' @ join_path TEST_DIR @ '' directory'')),
                    popen_rm_rf TEST_DIR]
          else skip)"

text \<open>Lines 78 to 83: one round of the loop over \<open>["url", "prompt"]\<close>.\<close>

definition missing_message :: "string \<Rightarrow> string" where
  "missing_message item =
     ''Please set agent.'' @ item @ '' in the config.toml file or pass it as the --''
       @ item @ '' CLI option.''"

definition is_none :: "pyval option \<Rightarrow> bool" where
  "is_none r = (case r of None \<Rightarrow> True | Some PyNone \<Rightarrow> True | Some _ \<Rightarrow> False)"

definition require :: "effective_config \<Rightarrow> string \<Rightarrow> stmt" where
  "require c item =
     (if is_none (agent_sec c item)
      then seq [emit (ErrPrint (missing_message item)), raise (TyperExit 0)]
      else skip)"

text \<open>Lines 86 to 89: the call of the agent, which is outside this program.\<close>

definition call_agent :: "effective_config \<Rightarrow> stmt" where
  "call_agent c =
     (case agent_sec c ''prompt'' of
        None \<Rightarrow> raise (KeyError ''prompt'')
      | Some p \<Rightarrow>
          (case agent_sec c ''url'' of
             None \<Rightarrow> raise (KeyError ''url'')
           | Some u \<Rightarrow> emit (AgentCall p u)))"

definition start :: "path \<Rightarrow> effective_config \<Rightarrow> cli_args \<Rightarrow> stmt" where
  "start TEST_DIR file_config a =
     (let config = merge a file_config in
      seq ([apply_log_level config, apply_headless config, apply_clean TEST_DIR config]
           @ map (require config) [''url'', ''prompt'']
           @ [call_agent config]))"

section \<open>External programs\<close>

text \<open>
  A started program either cannot be launched (\<open>subprocess\<close> raises an \<open>OSError\<close>) or
  exits with a status and the bytes it wrote to its standard output, which either
  decode to a text or do not. What a program does, to the file system too, is outside
  this code: \<open>os\<close> is the parameter that stands for it, asked with the command, the
  working directory when one is given, and the file system at that moment.
\<close>

datatype stdout = Text string | Undecodable

datatype proc_result = LaunchFailed | Exited int stdout

type_synonym os = "string list \<Rightarrow> path option \<Rightarrow> fs \<Rightarrow> proc_result \<times> fs"

text \<open>\<open>subprocess.run(cmd, cwd=cwd)\<close>: the exit status is not looked at.\<close>

definition subprocess_run :: "os \<Rightarrow> string list \<Rightarrow> path \<Rightarrow> stmt" where
  "subprocess_run ext cmd cwd w =
     (case ext cmd (Some cwd) (files w) of
        (r, f') \<Rightarrow>
          (let w' = w\<lparr>files := f', trace := trace w @ [SubprocessRun cmd cwd]\<rparr> in
           case r of
             LaunchFailed \<Rightarrow> (Some OSError, w')
           | Exited rc out \<Rightarrow> (None, w')))"

text \<open>\<open>subprocess.run(cmd, check=True, cwd=cwd)\<close>: a status other than 0 raises.\<close>

definition subprocess_run_check :: "os \<Rightarrow> string list \<Rightarrow> path \<Rightarrow> stmt" where
  "subprocess_run_check ext cmd cwd w =
     (case ext cmd (Some cwd) (files w) of
        (r, f') \<Rightarrow>
          (let w' = w\<lparr>files := f', trace := trace w @ [SubprocessRun cmd cwd]\<rparr> in
           case r of
             LaunchFailed \<Rightarrow> (Some OSError, w')
           | Exited rc out \<Rightarrow>
               if rc \<noteq> 0 then (Some CalledProcessError, w') else (None, w')))"

section \<open>File operations of the scaffolder\<close>

text \<open>
  \<open>shutil.rmtree(dir, ignore_errors=True)\<close>: a directory goes with everything below
  it; on a path that is absent or a file the error is ignored and nothing changes. The
  model has no permissions, so removing a directory never fails half way.
\<close>

definition delete_entire_dir :: "path \<Rightarrow> stmt" where
  "delete_entire_dir d w =
     (None,
      w\<lparr>files := (if is_dir (files w) d
                  then (\<lambda>p. if take (length d) p = d then None else files w p)
                  else files w),
        trace := trace w @ [Rmtree d]\<rparr>)"

text \<open>
  \<open>test_dir.mkdir(exist_ok=True)\<close>: no \<open>parents=True\<close>, so a missing parent raises;
  an existing directory is accepted, an existing file is not.
\<close>

definition mkdir_exist_ok :: "path \<Rightarrow> stmt" where
  "mkdir_exist_ok d w =
     (let f = files w; w' = w\<lparr>trace := trace w @ [Mkdir d]\<rparr> in
      if d = [] then (None, w')
      else if \<not> exists_path f (butlast d) then (Some FileNotFoundError, w')
      else if \<not> is_dir f (butlast d) then (Some NotADirectoryError, w')
      else (case f d of
              None \<Rightarrow> (None, w'\<lparr>files := f(d \<mapsto> Dir)\<rparr>)
            | Some Dir \<Rightarrow> (None, w')
            | Some (File t) \<Rightarrow> (Some FileExistsError, w')))"

text \<open>\<open>with open(p, "w") as f: f.write(text)\<close>.\<close>

definition write_file :: "path \<Rightarrow> string \<Rightarrow> stmt" where
  "write_file p t w =
     (let f = files w in
      if \<not> exists_path f (butlast p) then (Some FileNotFoundError, w)
      else if \<not> is_dir f (butlast p) then (Some NotADirectoryError, w)
      else if f p = Some Dir then (Some IsADirectoryError, w)
      else (None, w\<lparr>files := f(p \<mapsto> File t), trace := trace w @ [WriteFile p t]\<rparr>))"

section \<open>The toolchain probes\<close>

text \<open>\<open>str.strip()\<close>: the white space among the code points below 256.\<close>

definition py_space :: "char \<Rightarrow> bool" where
  "py_space c =
     (let n = (of_char c :: nat) in
      (9 \<le> n \<and> n \<le> 13) \<or> (28 \<le> n \<and> n \<le> 32) \<or> n = 133 \<or> n = 160)"

definition strip :: "string \<Rightarrow> string" where
  "strip s = rev (dropWhile py_space (rev (dropWhile py_space s)))"

text \<open>
  The body of the \<open>try\<close> block the four version probes share, up to the names in the
  log lines: \<open>subprocess.check_output(cmd)\<close> raises when the program cannot be
  launched or exits with a status other than 0, and \<open>decode()\<close> raises on bytes that
  are no text.
\<close>

definition version_query ::
  "os \<Rightarrow> string \<Rightarrow> string \<Rightarrow> string list \<Rightarrow> world \<Rightarrow> (exn + pyval) \<times> world" where
  "version_query ext title name cmd w =
     (let w1 = w\<lparr>trace := trace w @ [LogInfo (''Checking that '' @ title @ '' is installed.'')]\<rparr> in
      case ext cmd None (files w1) of
        (r, f') \<Rightarrow>
          (let w2 = w1\<lparr>files := f', trace := trace w1 @ [CheckOutput cmd]\<rparr> in
           case r of
             LaunchFailed \<Rightarrow> (Inl OSError, w2)
           | Exited rc out \<Rightarrow>
               if rc \<noteq> 0 then (Inl CalledProcessError, w2)
               else (case out of
                       Undecodable \<Rightarrow> (Inl UnicodeDecodeError, w2)
                     | Text s \<Rightarrow>
                         (Inr (PyStr (strip s)),
                          if s \<noteq> []
                          then w2\<lparr>trace := trace w2
                                   @ [LogInfo (''found '' @ name @ '' version: '' @ strip s)]\<rparr>
                          else w2))))"

text \<open>The exceptions \<open>except OSError\<close> catches.\<close>

fun is_os_error :: "exn \<Rightarrow> bool" where
  "is_os_error OSError = True"
| "is_os_error FileNotFoundError = True"
| "is_os_error FileExistsError = True"
| "is_os_error NotADirectoryError = True"
| "is_os_error IsADirectoryError = True"
| "is_os_error e = False"

text \<open>\<open>except subprocess.CalledProcessError: return False\<close>, \<open>except OSError: return False\<close>.\<close>

definition false_on_failure :: "(exn + pyval) \<times> world \<Rightarrow> (exn + pyval) \<times> world" where
  "false_on_failure r =
     (case r of
        (Inl e, w') \<Rightarrow>
          if e = CalledProcessError then (Inr (PyBool False), w')
          else if is_os_error e then (Inr (PyBool False), w')
          else (Inl e, w')
      | (Inr v, w') \<Rightarrow> (Inr v, w'))"

text \<open>\<open>check_for_node\<close>: \<open>except Exception as e\<close> logs and raises \<open>typer.Exit()\<close>.\<close>

definition check_for_node :: "os \<Rightarrow> world \<Rightarrow> (exn + pyval) \<times> world" where
  "check_for_node ext w =
     (case version_query ext ''Node.js'' ''node'' [''node'', ''-v''] w of
        (Inl e, w') \<Rightarrow>
          (Inl (TyperExit 0),
           w'\<lparr>trace := trace w'
                @ [LogError ''Could not find Node.js installation. Please install it from https://nodejs.org : '' e]\<rparr>)
      | (Inr v, w') \<Rightarrow> (Inr v, w'))"

definition check_for_npm :: "os \<Rightarrow> world \<Rightarrow> (exn + pyval) \<times> world" where
  "check_for_npm ext w = false_on_failure (version_query ext ''npm'' ''npm'' [''npm'', ''-v''] w)"

definition check_for_playwright :: "os \<Rightarrow> world \<Rightarrow> (exn + pyval) \<times> world" where
  "check_for_playwright ext w =
     false_on_failure (version_query ext ''Playwright'' ''playwright'' [''playwright'', ''--version''] w)"

definition check_for_cypress :: "os \<Rightarrow> world \<Rightarrow> (exn + pyval) \<times> world" where
  "check_for_cypress ext w =
     false_on_failure (version_query ext ''Cypress'' ''cypress'' [''cypress'', ''--version''] w)"

text \<open>
  The two browser steps. A statement that completes leaves the \<open>try\<close> block; the
  Playwright step then reaches \<open>return True\<close>, the Cypress step reaches the end of the
  function, which returns \<open>None\<close>.
\<close>

definition returning :: "pyval \<Rightarrow> exn option \<times> world \<Rightarrow> (exn + pyval) \<times> world" where
  "returning v r = (case r of (None, w') \<Rightarrow> (Inr v, w') | (Some e, w') \<Rightarrow> (Inl e, w'))"

definition check_for_playwright_browsers :: "os \<Rightarrow> path \<Rightarrow> world \<Rightarrow> (exn + pyval) \<times> world" where
  "check_for_playwright_browsers ext test_dir w =
     false_on_failure
       (returning (PyBool True)
          (seq [emit (LogInfo ''Checking that Playwright browsers are installed.''),
                subprocess_run_check ext [''playwright'', ''install'', ''chromium''] test_dir] w))"

definition check_for_cypress_installation :: "os \<Rightarrow> path \<Rightarrow> world \<Rightarrow> (exn + pyval) \<times> world" where
  "check_for_cypress_installation ext test_dir w =
     false_on_failure
       (returning PyNone
          (seq [emit (LogInfo ''Checking that Cypress is installed.''),
                subprocess_run_check ext [''npx'', ''--yes'', ''cypress'', ''install''] test_dir] w))"

section \<open>The scaffolders\<close>

text \<open>The texts the Cypress scaffolder writes, character for character.\<close>

definition package_json_text :: string where
  \<open>package_json_text =
     ''{\<newline>  "name": "agent-tests",\<newline>  "version": "1.0.0",\<newline>  "main": "index.js",\<newline>  "scripts": {\<newline>  },\<newline>  "keywords": [],\<newline>  "author": "",\<newline>  "license": "ISC",\<newline>  "devDependencies": {\<newline>    "cypress": "latest",\<newline>    "uuid": "latest",\<newline>    "typescript": "latest"\<newline>  }\<newline>}\<newline>            ''\<close>

definition gitignore_text :: string where
  \<open>gitignore_text = ''\<newline>node_modules/\<newline>.cypress/\<newline>            ''\<close>

definition cypress_config_ts_text :: string where
  \<open>cypress_config_ts_text =
     ''import { defineConfig } from 'cypress'\<newline>\<newline>export default defineConfig({\<newline>  defaultCommandTimeout: 10000,\<newline>  e2e: {\<newline>  \<newline>  },\<newline>})\<newline>''\<close>

definition tsconfig_json_text :: string where
  \<open>tsconfig_json_text =
     ''{\<newline>  "compilerOptions": {\<newline>    "target": "es5",\<newline>    "lib": ["es5", "dom"],\<newline>    "types": ["cypress", "node"]\<newline>  },\<newline>  "include": ["**/*.ts"]\<newline>}\<newline>''\<close>

definition cypress_config_js_text :: string where
  \<open>cypress_config_js_text =
     ''const { defineConfig } = require('cypress')\<newline>\<newline>module.exports = defineConfig({\<newline>  defaultCommandTimeout: 10000,\<newline>})\<newline>''\<close>

text \<open>
  Lines 96 to 100 and 183 to 187, the same in both scaffolders: the cleanup when
  \<open>clean\<close> holds, then the creation of the directory.
\<close>

definition prepare_dir :: "path \<Rightarrow> bool \<Rightarrow> stmt list" where
  "prepare_dir test_dir cl =
     (if cl then [delete_entire_dir test_dir] else []) @ [mkdir_exist_ok test_dir]"

text \<open>\<open>scaffold_playwright\<close> after the directory is there (lines 103 to 132).\<close>

definition playwright_init_cmd :: "string \<Rightarrow> string list" where
  "playwright_init_cmd lang =
     [''npm'', ''init'', ''playwright'', ''--'', ''--yes'', ''--quiet'', ''--install-deps'',
      ''--no-examples'', ''--browser=chromium'',
      ''--lang='' @ (if lang = ''typescript'' then ''Typescript'' else ''js''), ''.'']"

definition playwright_steps :: "os \<Rightarrow> path \<Rightarrow> string \<Rightarrow> stmt list" where
  "playwright_steps ext test_dir lang =
     (if lang = ''python'' then []
      else [emit (LogInfo ''Running the playwright install command.''),
            emit (PrintCmd (playwright_init_cmd lang)),
            subprocess_run ext (playwright_init_cmd lang) test_dir,
            emit (LogInfo ''Adding dev dependencies.''),
            subprocess_run ext [''npm'', ''install'', ''uuid'', ''--save-dev''] test_dir])"

definition scaffold_playwright :: "os \<Rightarrow> path \<Rightarrow> string \<Rightarrow> bool \<Rightarrow> stmt" where
  "scaffold_playwright ext test_dir lang cl =
     seq (prepare_dir test_dir cl @ playwright_steps ext test_dir lang)"

text \<open>
  \<open>scaffold_cypress\<close> after the directory is there: the files (lines 194 to 265),
  then the installation (lines 267 to 271).
\<close>

definition cypress_files :: "path \<Rightarrow> string \<Rightarrow> stmt list" where
  "cypress_files test_dir lang =
     [emit (LogInfo ''Setting up cypress environment.''),
      write_file (test_dir @ [''package.json'']) package_json_text,
      emit (LogInfo ''Adding a .gitignore file.''),
      write_file (test_dir @ [''.gitignore'']) gitignore_text]
     @ (if lang = ''typescript''
        then [emit (LogInfo ''Adding a cypress.config.ts file.''),
              write_file (test_dir @ [''cypress.config.ts'']) cypress_config_ts_text,
              emit (LogInfo ''Adding a tsconfig.json file.''),
              write_file (test_dir @ [''tsconfig.json'']) tsconfig_json_text]
        else [])
     @ (if lang = ''javascript''
        then [emit (LogInfo ''Adding a cypress.config.js file.''),
              write_file (test_dir @ [''cypress.config.js'']) cypress_config_js_text]
        else [])"

definition cypress_install :: "os \<Rightarrow> path \<Rightarrow> stmt list" where
  "cypress_install ext test_dir =
     [emit (LogInfo ''Installing npm dependencies.''),
      subprocess_run ext [''npm'', ''install''] test_dir]"

definition cypress_steps :: "os \<Rightarrow> path \<Rightarrow> string \<Rightarrow> stmt list" where
  "cypress_steps ext test_dir lang =
     (if lang = ''python'' then []
      else cypress_files test_dir lang @ cypress_install ext test_dir)"

definition scaffold_cypress :: "os \<Rightarrow> path \<Rightarrow> string \<Rightarrow> bool \<Rightarrow> stmt" where
  "scaffold_cypress ext test_dir lang cl =
     seq (prepare_dir test_dir cl @ cypress_steps ext test_dir lang)"

section \<open>Notions the properties are stated with\<close>

text \<open>The calls of the agent in a trace, in order, each with its prompt and its url.\<close>

fun agent_calls :: "event list \<Rightarrow> (pyval \<times> pyval) list" where
  "agent_calls [] = []"
| "agent_calls (AgentCall p u # es) = (p, u) # agent_calls es"
| "agent_calls (e # es) = agent_calls es"

text \<open>The files written in a trace, in order, each with its text.\<close>

fun writes :: "event list \<Rightarrow> (path \<times> string) list" where
  "writes [] = []"
| "writes (WriteFile p t # es) = (p, t) # writes es"
| "writes (e # es) = writes es"

text \<open>The programs started in a trace, in order.\<close>

fun commands :: "event list \<Rightarrow> string list list" where
  "commands [] = []"
| "commands (SubprocessRun cmd cwd # es) = cmd # commands es"
| "commands (CheckOutput cmd # es) = cmd # commands es"
| "commands (e # es) = commands es"

text \<open>
  The three keys lines 66 to 73 subscript are in the \<open>config\<close> section, so that none of
  the three raises a \<open>KeyError\<close>.
\<close>

definition keys_present :: "effective_config \<Rightarrow> bool" where
  "keys_present c =
     (config_sec c ''log_level'' \<noteq> None \<and> config_sec c ''headless'' \<noteq> None
      \<and> config_sec c ''clean'' \<noteq> None)"

text \<open>Lines 66 to 75 as one statement: what \<open>start\<close> does before it validates.\<close>

definition actions :: "path \<Rightarrow> effective_config \<Rightarrow> stmt" where
  "actions TEST_DIR c = seq [apply_log_level c, apply_headless c, apply_clean TEST_DIR c]"

text \<open>A directory that exists and has nothing below it.\<close>

definition empty_dir :: "fs \<Rightarrow> path \<Rightarrow> bool" where
  "empty_dir f d =
     (is_dir f d \<and> (\<forall>p. length d < length p \<and> take (length d) p = d \<longrightarrow> f p = None))"

text \<open>A probed program that failed: it could not be launched, or its exit status is not 0.\<close>

fun failed :: "proc_result \<Rightarrow> bool" where
  "failed LaunchFailed = True"
| "failed (Exited rc out) = (rc \<noteq> 0)"

text \<open>
  A file system as the operating system keeps it: whatever exists below the working
  directory lies in a directory.
\<close>

definition wf_fs :: "fs \<Rightarrow> bool" where
  "wf_fs f = (\<forall>p. p \<noteq> [] \<and> f p \<noteq> None \<longrightarrow> is_dir f (butlast p))"

text \<open>
  The file system after lines 96 to 100 (183 to 187) have run without raising: the
  directory and all below it removed when \<open>clean\<close> holds and it is a directory, then
  the directory there.
\<close>

definition prepared :: "path \<Rightarrow> bool \<Rightarrow> fs \<Rightarrow> fs" where
  "prepared d cl f =
     (let f1 = (if cl \<and> is_dir f d
                then (\<lambda>p. if take (length d) p = d then None else f p) else f)
      in if d = [] then f1 else f1(d \<mapsto> Dir))"

section \<open>Concrete inputs\<close>

text \<open>A test directory with the hidden file \<open>scaffold_cypress\<close> writes, a test and a
  sub-directory; configuration files; command lines.\<close>

definition tests_dir :: path where
  "tests_dir = [''tests'']"

definition world_with_tests :: world where
  "world_with_tests =
     \<lparr>files = [[''tests''] \<mapsto> Dir,
               [''tests'', ''.gitignore''] \<mapsto> File gitignore_text,
               [''tests'', ''test_login.py''] \<mapsto> File ''pass'',
               [''tests'', ''pages''] \<mapsto> Dir,
               [''tests'', ''pages'', ''home.py''] \<mapsto> File ''pass''],
      environ = Map.empty, trace = []\<rparr>"

definition file_with_url :: effective_config where
  "file_with_url =
     \<lparr>agent_sec = [''url'' \<mapsto> PyStr ''http://example.com''],
      config_sec = [''log_level'' \<mapsto> PyStr ''INFO'', ''headless'' \<mapsto> PyBool False,
                    ''clean'' \<mapsto> PyBool True]\<rparr>"

definition file_without_url :: effective_config where
  "file_without_url =
     \<lparr>agent_sec = Map.empty,
      config_sec = [''log_level'' \<mapsto> PyStr ''INFO'', ''headless'' \<mapsto> PyBool False,
                    ''clean'' \<mapsto> PyBool True]\<rparr>"

definition file_clean_off :: effective_config where
  "file_clean_off =
     \<lparr>agent_sec = Map.empty,
      config_sec = [''log_level'' \<mapsto> PyStr ''INFO'', ''headless'' \<mapsto> PyBool False,
                    ''clean'' \<mapsto> PyBool False]\<rparr>"

definition call_with_clean :: cli_call where
  "call_with_clean =
     \<lparr>given_prompt = ''check login flow'', given_url = ''http://example.com'',
      given_clean = Some True, given_debug = None, given_headless = None,
      given_language = None, given_framework = None\<rparr>"

definition args_with_prompt :: "string \<Rightarrow> cli_args" where
  "args_with_prompt p =
     \<lparr>prompt = Some p, url = None, clean = False, debug = False, headless = False,
      language = ''python'', framework = ''playwright''\<rparr>"

definition args_without_prompt :: cli_args where
  "args_without_prompt =
     \<lparr>prompt = None, url = None, clean = False, debug = False, headless = False,
      language = ''python'', framework = ''playwright''\<rparr>"

text \<open>A system where every program runs and exits with 0, and one where none can be
  launched.\<close>

definition os_all_succeed :: os where
  "os_all_succeed cmd cwd f = (Exited 0 (Text ''13.6.0''), f)"

definition os_nothing_installed :: os where
  "os_nothing_installed cmd cwd f = (LaunchFailed, f)"

section \<open>Sequencing and traces\<close>

lemma agent_calls_append: "agent_calls (xs @ ys) = agent_calls xs @ agent_calls ys"
  by (induction xs rule: agent_calls.induct) simp_all

lemma writes_append: "writes (xs @ ys) = writes xs @ writes ys"
  by (induction xs rule: writes.induct) simp_all

lemma commands_append: "commands (xs @ ys) = commands xs @ commands ys"
  by (induction xs rule: commands.induct) simp_all

lemma seq_append:
  "seq (xs @ ys) w =
     (case seq xs w of (None, w') \<Rightarrow> seq ys w' | (Some e, w') \<Rightarrow> (Some e, w'))"
  by (induction xs arbitrary: w) (auto split: prod.splits option.splits)

section \<open>The resolver: precedence of the command line\<close>

text \<open>
  What the overrides do to the \<open>agent\<close> section: \<open>prompt\<close> and \<open>url\<close> are written when
  they are not \<open>None\<close>, \<open>language\<close> and \<open>framework\<close> when they are not empty, and a
  caller that leaves the last two out passes their non-empty defaults.
\<close>

lemma merge_prompt_url:
  "agent_sec (merge a c) ''prompt''
     = (case prompt a of None \<Rightarrow> agent_sec c ''prompt'' | Some p \<Rightarrow> Some (PyStr p))"
  "agent_sec (merge a c) ''url''
     = (case url a of None \<Rightarrow> agent_sec c ''url'' | Some u \<Rightarrow> Some (PyStr u))"
  by (simp_all add: merge_def set_agent_def set_config_def Let_def split: option.splits)

lemma merge_language_framework:
  "agent_sec (merge a c) ''language''
     = (if language a \<noteq> [] then Some (PyStr (language a)) else agent_sec c ''language'')"
  "agent_sec (merge a c) ''framework''
     = (if framework a \<noteq> [] then Some (PyStr (framework a)) else agent_sec c ''framework'')"
  by (simp_all add: merge_def set_agent_def set_config_def Let_def split: option.splits)

lemma bind_defaults_left_out:
  "given_language call = None \<Longrightarrow> language (bind_defaults call) = ''python''"
  "given_framework call = None \<Longrightarrow> framework (bind_defaults call) = ''playwright''"
  by (simp_all add: bind_defaults_def)

text \<open>
  C1. The claim: a field the command line does not set keeps the value of the file, for
  \<open>language\<close> and \<open>framework\<close> in particular. The code does otherwise: with
  \<open>--language\<close> and \<open>--framework\<close> left out, \<open>start\<close> receives the defaults \<open>"python"\<close>
  and \<open>"playwright"\<close>, both non-empty, so lines 60 to 63 write them over the file's
  \<open>"typescript"\<close> and \<open>"cypress"\<close>.
\<close>

theorem default_language_overrides_file:
  "agent_sec
     (merge
        (bind_defaults
           \<lparr>given_prompt = ''check login flow'', given_url = ''http://example.com'',
            given_clean = None, given_debug = None, given_headless = None,
            given_language = None, given_framework = None\<rparr>)
        \<lparr>agent_sec = [''language'' \<mapsto> PyStr ''typescript'', ''framework'' \<mapsto> PyStr ''cypress''],
         config_sec = Map.empty\<rparr>) ''language'' = Some (PyStr ''python'')
   \<and> agent_sec
     (merge
        (bind_defaults
           \<lparr>given_prompt = ''check login flow'', given_url = ''http://example.com'',
            given_clean = None, given_debug = None, given_headless = None,
            given_language = None, given_framework = None\<rparr>)
        \<lparr>agent_sec = [''language'' \<mapsto> PyStr ''typescript'', ''framework'' \<mapsto> PyStr ''cypress''],
         config_sec = Map.empty\<rparr>) ''framework'' = Some (PyStr ''playwright'')"
  by (simp add: merge_def bind_defaults_def set_agent_def set_config_def)

text \<open>
  C4. For each of the flags \<open>clean\<close>, \<open>debug\<close> and \<open>headless\<close>: a flag that is false
  leaves the file's setting as it is (\<open>debug\<close> works on the key \<open>log_level\<close>), with all
  three false the whole \<open>config\<close> section is the file's, and a flag that is true sets
  its key.
\<close>

theorem false_flag_keeps_file_setting:
  "(\<not> headless a \<longrightarrow> config_sec (merge a c) ''headless'' = config_sec c ''headless'')
   \<and> (\<not> clean a \<longrightarrow> config_sec (merge a c) ''clean'' = config_sec c ''clean'')
   \<and> (\<not> debug a \<longrightarrow> config_sec (merge a c) ''log_level'' = config_sec c ''log_level'')
   \<and> (\<not> headless a \<and> \<not> clean a \<and> \<not> debug a \<longrightarrow> config_sec (merge a c) = config_sec c)
   \<and> (headless a \<longrightarrow> config_sec (merge a c) ''headless'' = Some (PyBool True))
   \<and> (clean a \<longrightarrow> config_sec (merge a c) ''clean'' = Some (PyBool True))
   \<and> (debug a \<longrightarrow> config_sec (merge a c) ''log_level'' = Some (PyStr ''DEBUG''))"
  by (simp add: merge_def set_agent_def set_config_def Let_def split: option.splits)

theorem false_flag_keeps_file_setting_witness:
  "config_sec
     (merge \<lparr>prompt = None, url = None, clean = False, debug = False, headless = False,
             language = ''python'', framework = ''playwright''\<rparr>
        \<lparr>agent_sec = Map.empty,
         config_sec = [''headless'' \<mapsto> PyBool True, ''clean'' \<mapsto> PyBool True,
                       ''log_level'' \<mapsto> PyStr ''DEBUG'']\<rparr>)
   = [''headless'' \<mapsto> PyBool True, ''clean'' \<mapsto> PyBool True, ''log_level'' \<mapsto> PyStr ''DEBUG'']"
  using false_flag_keeps_file_setting
    [of "\<lparr>prompt = None, url = None, clean = False, debug = False, headless = False,
          language = ''python'', framework = ''playwright''\<rparr>"
        "\<lparr>agent_sec = Map.empty,
         config_sec = [''headless'' \<mapsto> PyBool True, ''clean'' \<mapsto> PyBool True,
                       ''log_level'' \<mapsto> PyStr ''DEBUG'']\<rparr>"]
  by simp

section \<open>The resolver: actions and validation\<close>

lemma start_split:
  "start T file a w =
     (case actions T (merge a file) w of
        (None, w1) \<Rightarrow>
          seq [require (merge a file) ''url'', require (merge a file) ''prompt'',
               call_agent (merge a file)] w1
      | (Some e, w1) \<Rightarrow> (Some e, w1))"
  by (simp add: start_def actions_def Let_def split: prod.splits option.splits)

lemma actions_world:
  assumes "config_sec c ''log_level'' = Some lv" "config_sec c ''headless'' = Some hv"
    "config_sec c ''clean'' = Some cv"
  shows "actions T c w =
     (None,
      w\<lparr>files := (if lower (py_str cv) = ''true'' then rm_rf_glob T (files w) else files w),
        environ :=
          (let e1 = (if lower (py_str lv) = ''debug''
                     then (environ w)(''LOG_LEVEL'' \<mapsto> ''DEBUG'') else environ w)
           in if lower (py_str hv) = ''true'' then e1(''HEADLESS'' \<mapsto> ''true'') else e1),
        trace := trace w
          @ (if lower (py_str lv) = ''debug'' then [LoggerSetLevel ''DEBUG''] else [])
          @ (if lower (py_str cv) = ''true''
             then [LogInfo (''Deleting files in the '' @ join_path T @ '' directory''),
                   Popen (''rm -rf '' @ join_path T @ ''/*'')]
             else [])\<rparr>)"
  using assms
  by (simp add: actions_def apply_log_level_def apply_headless_def
      apply_clean_def popen_rm_rf_def emit_def skip_def setenv_def Let_def)

lemma actions_ok:
  assumes "keys_present c"
  shows "fst (actions T c w) = None"
    and "agent_calls (trace (snd (actions T c w))) = agent_calls (trace w)"
proof -
  from assms obtain lv hv cv where
    k: "config_sec c ''log_level'' = Some lv" "config_sec c ''headless'' = Some hv"
      "config_sec c ''clean'' = Some cv"
    by (auto simp: keys_present_def)
  show "fst (actions T c w) = None"
    by (simp add: actions_world [OF k])
  show "agent_calls (trace (snd (actions T c w))) = agent_calls (trace w)"
    by (simp add: actions_world [OF k] agent_calls_append)
qed

lemma validate_url_missing:
  "is_none (agent_sec c ''url'') \<Longrightarrow>
   seq [require c ''url'', require c ''prompt'', call_agent c] w1 =
     (Some (TyperExit 0), w1\<lparr>trace := trace w1 @ [ErrPrint (missing_message ''url'')]\<rparr>)"
  by (simp add: require_def emit_def raise_def)

lemma validate_prompt_missing:
  "\<not> is_none (agent_sec c ''url'') \<Longrightarrow> is_none (agent_sec c ''prompt'') \<Longrightarrow>
   seq [require c ''url'', require c ''prompt'', call_agent c] w1 =
     (Some (TyperExit 0), w1\<lparr>trace := trace w1 @ [ErrPrint (missing_message ''prompt'')]\<rparr>)"
  by (simp add: require_def emit_def raise_def skip_def)

lemma validate_both_present:
  "agent_sec c ''url'' = Some u \<Longrightarrow> u \<noteq> PyNone \<Longrightarrow>
   agent_sec c ''prompt'' = Some p \<Longrightarrow> p \<noteq> PyNone \<Longrightarrow>
   seq [require c ''url'', require c ''prompt'', call_agent c] w1 =
     (None, w1\<lparr>trace := trace w1 @ [AgentCall p u]\<rparr>)"
  by (cases u; cases p) (simp_all add: require_def call_agent_def emit_def skip_def is_none_def)

lemma start_after_actions:
  assumes "keys_present (merge a file)"
  shows "start T file a w =
     seq [require (merge a file) ''url'', require (merge a file) ''prompt'',
          call_agent (merge a file)] (snd (actions T (merge a file) w))"
proof -
  obtain r w1 where e: "actions T (merge a file) w = (r, w1)"
    by (cases "actions T (merge a file) w")
  with actions_ok(1) [OF assms, of T w] have "r = None" by simp
  with e show ?thesis by (simp add: start_split)
qed

text \<open>
  C2. Let \<open>c\<close> be the configuration after the overrides and \<open>w1\<close> the world after lines
  66 to 75. When \<open>agent.url\<close> is missing or \<open>None\<close>, \<open>start\<close> prints the message that
  names \<open>agent.url\<close>, the file \<open>config.toml\<close> and the option \<open>--url\<close>, and raises
  \<open>typer.Exit()\<close>, whose exit code is 0; when only \<open>agent.prompt\<close> is missing, the same
  for \<open>prompt\<close>. In both cases the agent is not called. When both are there, the agent
  is called once, with the resolved prompt and url, and \<open>start\<close> returns.
\<close>

theorem missing_field_exits_without_agent:
  assumes "c = merge a file" and "keys_present c" and "w1 = snd (actions T c w)"
  shows "(is_none (agent_sec c ''url'') \<longrightarrow>
            start T file a w =
              (Some (TyperExit 0),
               w1\<lparr>trace := trace w1
                    @ [ErrPrint ''Please set agent.url in the config.toml file or pass it as the --url CLI option.'']\<rparr>))
       \<and> (\<not> is_none (agent_sec c ''url'') \<and> is_none (agent_sec c ''prompt'') \<longrightarrow>
            start T file a w =
              (Some (TyperExit 0),
               w1\<lparr>trace := trace w1
                    @ [ErrPrint ''Please set agent.prompt in the config.toml file or pass it as the --prompt CLI option.'']\<rparr>))
       \<and> (is_none (agent_sec c ''url'') \<or> is_none (agent_sec c ''prompt'') \<longrightarrow>
            agent_calls (trace (snd (start T file a w))) = agent_calls (trace w))
       \<and> (\<forall>p u. agent_sec c ''prompt'' = Some p \<and> p \<noteq> PyNone
                 \<and> agent_sec c ''url'' = Some u \<and> u \<noteq> PyNone \<longrightarrow>
            start T file a w = (None, w1\<lparr>trace := trace w1 @ [AgentCall p u]\<rparr>)
            \<and> agent_calls (trace (snd (start T file a w))) = agent_calls (trace w) @ [(p, u)])"
proof -
  have s: "start T file a w = seq [require c ''url'', require c ''prompt'', call_agent c] w1"
    using assms start_after_actions by simp
  have ac: "agent_calls (trace w1) = agent_calls (trace w)"
    using assms actions_ok(2) by simp
  have 1: "is_none (agent_sec c ''url'') \<longrightarrow>
            start T file a w =
              (Some (TyperExit 0),
               w1\<lparr>trace := trace w1
                    @ [ErrPrint ''Please set agent.url in the config.toml file or pass it as the --url CLI option.'']\<rparr>)"
    using validate_url_missing [of c w1] by (simp add: s missing_message_def)
  have 2: "\<not> is_none (agent_sec c ''url'') \<and> is_none (agent_sec c ''prompt'') \<longrightarrow>
            start T file a w =
              (Some (TyperExit 0),
               w1\<lparr>trace := trace w1
                    @ [ErrPrint ''Please set agent.prompt in the config.toml file or pass it as the --prompt CLI option.'']\<rparr>)"
    using validate_prompt_missing [of c w1] by (simp add: s missing_message_def)
  have 3: "is_none (agent_sec c ''url'') \<or> is_none (agent_sec c ''prompt'') \<longrightarrow>
            agent_calls (trace (snd (start T file a w))) = agent_calls (trace w)"
    using validate_url_missing [of c w1] validate_prompt_missing [of c w1]
    by (cases "is_none (agent_sec c ''url'')") (auto simp: s ac agent_calls_append)
  have 4: "\<forall>p u. agent_sec c ''prompt'' = Some p \<and> p \<noteq> PyNone
                 \<and> agent_sec c ''url'' = Some u \<and> u \<noteq> PyNone \<longrightarrow>
            start T file a w = (None, w1\<lparr>trace := trace w1 @ [AgentCall p u]\<rparr>)
            \<and> agent_calls (trace (snd (start T file a w))) = agent_calls (trace w) @ [(p, u)]"
    using validate_both_present [of c _ _ w1] by (auto simp: s ac agent_calls_append)
  from 1 2 3 4 show ?thesis by blast
qed


lemma require_raises_iff:
  "(fst (require c item w1) = None) =
     (agent_sec c item \<noteq> None \<and> agent_sec c item \<noteq> Some PyNone)"
  by (auto simp: require_def is_none_def emit_def raise_def skip_def
      split: option.splits pyval.splits)

text \<open>
  C10. A round of the validation loop raises exactly when the field is missing or
  \<open>None\<close>. So an empty prompt next to a url that is there passes, and the agent is
  called with the empty string as its prompt; likewise an empty url.
\<close>

theorem empty_string_passes_validation:
  assumes "c = merge a file" and "keys_present c"
  shows "(\<forall>item w1. (fst (require c item w1) = None) =
            (agent_sec c item \<noteq> None \<and> agent_sec c item \<noteq> Some PyNone))
       \<and> (\<forall>u. agent_sec c ''prompt'' = Some (PyStr []) \<and> agent_sec c ''url'' = Some u
                \<and> u \<noteq> PyNone \<longrightarrow>
              fst (start T file a w) = None
              \<and> agent_calls (trace (snd (start T file a w)))
                  = agent_calls (trace w) @ [(PyStr [], u)])
       \<and> (\<forall>p. agent_sec c ''url'' = Some (PyStr []) \<and> agent_sec c ''prompt'' = Some p
                \<and> p \<noteq> PyNone \<longrightarrow>
              fst (start T file a w) = None
              \<and> agent_calls (trace (snd (start T file a w)))
                  = agent_calls (trace w) @ [(p, PyStr [])])"
proof -
  let ?w1 = "snd (actions T c w)"
  have s: "start T file a w = seq [require c ''url'', require c ''prompt'', call_agent c] ?w1"
    using assms start_after_actions by simp
  have ac: "agent_calls (trace ?w1) = agent_calls (trace w)"
    using assms actions_ok(2) by simp
  have run: "fst (start T file a w) = None
             \<and> agent_calls (trace (snd (start T file a w))) = agent_calls (trace w) @ [(p, u)]"
    if "agent_sec c ''prompt'' = Some p" "p \<noteq> PyNone" "agent_sec c ''url'' = Some u" "u \<noteq> PyNone"
    for p u
    using validate_both_present [OF that(3) that(4) that(1) that(2), of ?w1]
    by (simp add: s ac agent_calls_append)
  show ?thesis
    using run by (simp add: require_raises_iff)
qed

lemma validate_frame:
  "files (snd (seq [require c ''url'', require c ''prompt'', call_agent c] w1)) = files w1
   \<and> (\<exists>post. trace (snd (seq [require c ''url'', require c ''prompt'', call_agent c] w1))
              = trace w1 @ post)"
  by (auto simp: require_def call_agent_def emit_def raise_def skip_def
      split: option.splits)

lemma rm_rf_glob_entries:
  "rm_rf_glob T f T = f T"
  "glob_star n \<Longrightarrow> rm_rf_glob T f (T @ n # rest) = None"
  "\<not> glob_star n \<Longrightarrow> rm_rf_glob T f (T @ n # rest) = f (T @ n # rest)"
  "take (length T) p \<noteq> T \<Longrightarrow> rm_rf_glob T f p = f p"
  by (simp_all add: rm_rf_glob_def nth_append)

text \<open>
  The order of the cleanup and the validation. When the \<open>clean\<close> setting resolves to
  true and the test directory is a plain path, \<open>start\<close> runs \<open>rm -rf TEST_DIR/*\<close>
  before the validation: no validation message and no call of the agent comes before it
  in the trace, and it has run also when a required field is missing and \<open>start\<close>
  exits. What the command removes is what the shell's \<open>*\<close> matches.
\<close>

lemma clean_runs_before_validation:
  assumes "c = merge a file" and "keys_present c" and "plain_path T"
    and "config_sec c ''clean'' = Some cv" and "lower (py_str cv) = ''true''"
    and "w' = snd (start T file a w)"
  shows "files w' = rm_rf_glob T (files w)
       \<and> (\<exists>pre post. trace w' = trace w @ pre @ [Popen (''rm -rf '' @ join_path T @ ''/*'')] @ post
             \<and> (\<forall>m. ErrPrint m \<notin> set pre) \<and> (\<forall>p u. AgentCall p u \<notin> set pre))
       \<and> (is_none (agent_sec c ''url'') \<or> is_none (agent_sec c ''prompt'') \<longrightarrow>
            fst (start T file a w) = Some (TyperExit 0))
       \<and> files w' T = files w T
       \<and> (\<forall>n rest. glob_star n \<longrightarrow> files w' (T @ n # rest) = None)
       \<and> (\<forall>n rest. \<not> glob_star n \<longrightarrow> files w' (T @ n # rest) = files w (T @ n # rest))
       \<and> (\<forall>p. take (length T) p \<noteq> T \<longrightarrow> files w' p = files w p)"
proof -
  from assms(2) obtain lv hv where
    k: "config_sec c ''log_level'' = Some lv" "config_sec c ''headless'' = Some hv"
    by (auto simp: keys_present_def)
  let ?w1 = "snd (actions T c w)"
  let ?pre = "(if lower (py_str lv) = ''debug'' then [LoggerSetLevel ''DEBUG''] else [])
              @ [LogInfo (''Deleting files in the '' @ join_path T @ '' directory'')]"
  have s: "start T file a w = seq [require c ''url'', require c ''prompt'', call_agent c] ?w1"
    using assms start_after_actions by simp
  have f1: "files ?w1 = rm_rf_glob T (files w)"
    using assms(5) by (simp add: actions_world [OF k assms(4)])
  have t1: "trace ?w1 = trace w @ ?pre @ [Popen (''rm -rf '' @ join_path T @ ''/*'')]"
    using assms(5) by (simp add: actions_world [OF k assms(4)])
  have fw: "files w' = rm_rf_glob T (files w)"
    using validate_frame [of c ?w1] by (simp add: assms(6) s f1)
  obtain post where tw: "trace w' = trace ?w1 @ post"
    using validate_frame [of c ?w1] by (auto simp: assms(6) s)
  have 2: "\<exists>pre post. trace w' = trace w @ pre @ [Popen (''rm -rf '' @ join_path T @ ''/*'')] @ post
             \<and> (\<forall>m. ErrPrint m \<notin> set pre) \<and> (\<forall>p u. AgentCall p u \<notin> set pre)"
  proof (intro exI conjI)
    show "trace w' = trace w @ ?pre @ [Popen (''rm -rf '' @ join_path T @ ''/*'')] @ post"
      by (simp add: tw t1)
    show "\<forall>m. ErrPrint m \<notin> set ?pre" by simp
    show "\<forall>p u. AgentCall p u \<notin> set ?pre" by simp
  qed
  have 3: "is_none (agent_sec c ''url'') \<or> is_none (agent_sec c ''prompt'') \<longrightarrow>
            fst (start T file a w) = Some (TyperExit 0)"
    using validate_url_missing [of c ?w1] validate_prompt_missing [of c ?w1]
    by (cases "is_none (agent_sec c ''url'')") (auto simp: s)
  show ?thesis
    using 2 3 by (simp add: fw rm_rf_glob_entries)
qed


lemma lower_True: "lower ''True'' = ''true''"
  by code_simp

lemma world_with_tests_trace: "trace world_with_tests = []"
  by (simp add: world_with_tests_def)

lemma example_keys:
  "keys_present (merge (args_with_prompt p) file_with_url)"
  "keys_present (merge (args_with_prompt p) file_without_url)"
  "keys_present (merge args_without_prompt file_with_url)"
  by (simp_all add: keys_present_def merge_def set_agent_def set_config_def
      args_with_prompt_def args_without_prompt_def file_with_url_def file_without_url_def)

lemma example_agent:
  "agent_sec (merge (args_with_prompt p) file_with_url) ''url'' = Some (PyStr ''http://example.com'')"
  "agent_sec (merge (args_with_prompt p) file_with_url) ''prompt'' = Some (PyStr p)"
  "agent_sec (merge (args_with_prompt p) file_without_url) ''url'' = None"
  "agent_sec (merge args_without_prompt file_with_url) ''url'' = Some (PyStr ''http://example.com'')"
  "agent_sec (merge args_without_prompt file_with_url) ''prompt'' = None"
  by (simp_all add: merge_def set_agent_def set_config_def
      args_with_prompt_def args_without_prompt_def file_with_url_def file_without_url_def)

theorem missing_field_exits_without_agent_witness:
  "fst (start tests_dir file_without_url (args_with_prompt ''check login flow'') world_with_tests)
     = Some (TyperExit 0)
   \<and> agent_calls (trace (snd (start tests_dir file_without_url
         (args_with_prompt ''check login flow'') world_with_tests))) = []
   \<and> fst (start tests_dir file_with_url args_without_prompt world_with_tests)
     = Some (TyperExit 0)
   \<and> fst (start tests_dir file_with_url (args_with_prompt ''check login flow'') world_with_tests)
     = None
   \<and> agent_calls (trace (snd (start tests_dir file_with_url
         (args_with_prompt ''check login flow'') world_with_tests)))
     = [(PyStr ''check login flow'', PyStr ''http://example.com'')]"
proof -
  note no_url = missing_field_exits_without_agent
    [OF refl example_keys(2) [of "''check login flow''"] refl,
      where T = tests_dir and w = world_with_tests]
  note no_prompt = missing_field_exits_without_agent
    [OF refl example_keys(3) refl, where T = tests_dir and w = world_with_tests]
  note both = missing_field_exits_without_agent
    [OF refl example_keys(1) [of "''check login flow''"] refl,
      where T = tests_dir and w = world_with_tests]
  show ?thesis
    using no_url no_prompt both
    by (simp add: example_agent is_none_def world_with_tests_trace agent_calls_append
        actions_ok(2) example_keys)
qed

theorem empty_string_passes_validation_witness:
  "fst (start tests_dir file_with_url (args_with_prompt []) world_with_tests) = None
   \<and> agent_calls (trace (snd (start tests_dir file_with_url (args_with_prompt [])
         world_with_tests))) = [(PyStr [], PyStr ''http://example.com'')]"
  using empty_string_passes_validation
    [OF refl example_keys(1) [of "[]"], where T = tests_dir and w = world_with_tests]
  by (simp add: example_agent world_with_tests_trace)

lemma tests_dir_plain: "plain_path tests_dir"
  by code_simp

lemma call_with_clean_config:
  "keys_present (merge (bind_defaults call_with_clean) file_clean_off)"
  "config_sec (merge (bind_defaults call_with_clean) file_clean_off) ''log_level''
     = Some (PyStr ''INFO'')"
  "config_sec (merge (bind_defaults call_with_clean) file_clean_off) ''headless''
     = Some (PyBool False)"
  "config_sec (merge (bind_defaults call_with_clean) file_clean_off) ''clean''
     = Some (PyBool True)"
  "agent_sec (merge (bind_defaults call_with_clean) file_clean_off) ''prompt''
     = Some (PyStr ''check login flow'')"
  "agent_sec (merge (bind_defaults call_with_clean) file_clean_off) ''url''
     = Some (PyStr ''http://example.com'')"
  by (simp_all add: keys_present_def merge_def set_agent_def set_config_def bind_defaults_def
      call_with_clean_def file_clean_off_def)

lemma lower_INFO: "lower ''INFO'' = ''info''"
  by code_simp

text \<open>
  C3. The claim: when the \<open>clean\<close> flag resolves to true, all contents of the test
  directory are deleted, the directory itself stays, and this happens before the
  validation. The order is as claimed (the lemma above). The deletion is not: at
  \<open>--prompt "check login flow" --url http://example.com --clean\<close>, on a test directory
  that holds \<open>.gitignore\<close>, \<open>test_login.py\<close> and \<open>pages/home.py\<close>, the run deletes the
  test and the sub-directory before it calls the agent, and \<open>.gitignore\<close> is still
  there, since the shell's \<open>*\<close> does not match a name that begins with a dot.
\<close>

theorem clean_keeps_hidden_entries:
  "plain_path tests_dir
   \<and> config_sec (merge (bind_defaults call_with_clean) file_clean_off) ''clean''
       = Some (PyBool True)
   \<and> lower (py_str (PyBool True)) = ''true''
   \<and> fst (start tests_dir file_clean_off (bind_defaults call_with_clean) world_with_tests) = None
   \<and> trace (snd (start tests_dir file_clean_off (bind_defaults call_with_clean)
        world_with_tests))
       = [LogInfo ''Deleting files in the tests directory'', Popen ''rm -rf tests/*'',
          AgentCall (PyStr ''check login flow'') (PyStr ''http://example.com'')]
   \<and> files (snd (start tests_dir file_clean_off (bind_defaults call_with_clean)
        world_with_tests)) [''tests''] = Some Dir
   \<and> files (snd (start tests_dir file_clean_off (bind_defaults call_with_clean)
        world_with_tests)) [''tests'', ''test_login.py''] = None
   \<and> files (snd (start tests_dir file_clean_off (bind_defaults call_with_clean)
        world_with_tests)) [''tests'', ''pages''] = None
   \<and> files (snd (start tests_dir file_clean_off (bind_defaults call_with_clean)
        world_with_tests)) [''tests'', ''pages'', ''home.py''] = None
   \<and> files (snd (start tests_dir file_clean_off (bind_defaults call_with_clean)
        world_with_tests)) [''tests'', ''.gitignore''] = Some (File gitignore_text)"
proof -
  let ?c = "merge (bind_defaults call_with_clean) file_clean_off"
  let ?w1 = "snd (actions tests_dir ?c world_with_tests)"
  have w1: "files ?w1 = rm_rf_glob tests_dir (files world_with_tests)"
    "trace ?w1 = [LogInfo ''Deleting files in the tests directory'', Popen ''rm -rf tests/*'']"
    by (simp_all add: actions_world [OF call_with_clean_config(2,3,4)] lower_True lower_INFO
        world_with_tests_trace tests_dir_def)
  have s: "start tests_dir file_clean_off (bind_defaults call_with_clean) world_with_tests
             = (None, ?w1\<lparr>trace := trace ?w1
                  @ [AgentCall (PyStr ''check login flow'') (PyStr ''http://example.com'')]\<rparr>)"
    using validate_both_present
      [OF call_with_clean_config(6) _ call_with_clean_config(5), of ?w1]
    by (simp add: start_after_actions [OF call_with_clean_config(1)])
  have f: "rm_rf_glob tests_dir (files world_with_tests) [''tests''] = Some Dir"
    "rm_rf_glob tests_dir (files world_with_tests) [''tests'', ''test_login.py''] = None"
    "rm_rf_glob tests_dir (files world_with_tests) [''tests'', ''pages''] = None"
    "rm_rf_glob tests_dir (files world_with_tests) [''tests'', ''pages'', ''home.py''] = None"
    "rm_rf_glob tests_dir (files world_with_tests) [''tests'', ''.gitignore'']
       = Some (File gitignore_text)"
    by (simp_all add: rm_rf_glob_def tests_dir_def world_with_tests_def)
  show ?thesis
    by (simp add: s w1 f tests_dir_plain call_with_clean_config(4) lower_True)
qed

section \<open>The toolchain probes and the browser steps\<close>

lemma version_query_failed:
  assumes "failed (fst (ext cmd None (files w)))"
  shows "fst (version_query ext title name cmd w) = Inl OSError
       \<or> fst (version_query ext title name cmd w) = Inl CalledProcessError"
proof (cases "ext cmd None (files w)")
  case (Pair r f')
  with assms show ?thesis
    by (cases r) (simp_all add: version_query_def Let_def)
qed

lemma false_on_failure_caught:
  "fst r = Inl OSError \<or> fst r = Inl CalledProcessError \<Longrightarrow>
   fst (false_on_failure r) = Inr (PyBool False)"
  by (cases r) (auto simp: false_on_failure_def)


lemma check_for_node_exits:
  assumes "fst (version_query ext ''Node.js'' ''node'' [''node'', ''-v''] w) = Inl e"
  shows "fst (check_for_node ext w) = Inl (TyperExit 0)
   \<and> trace (snd (check_for_node ext w)) =
       trace (snd (version_query ext ''Node.js'' ''node'' [''node'', ''-v''] w))
       @ [LogError ''Could not find Node.js installation. Please install it from https://nodejs.org : '' e]"
proof (cases "version_query ext ''Node.js'' ''node'' [''node'', ''-v''] w")
  case (Pair r w')
  with assms show ?thesis
    by (simp add: check_for_node_def)
qed

lemma check_for_node_only_exit:
  assumes "fst (check_for_node ext w) = Inl e"
  shows "e = TyperExit 0"
proof (cases "version_query ext ''Node.js'' ''node'' [''node'', ''-v''] w")
  case (Pair r w')
  with assms show ?thesis
    by (cases r) (simp_all add: check_for_node_def)
qed

text \<open>
  C8. When the probed program cannot be launched or exits with a status other than 0,
  the probes of npm, Playwright and Cypress return \<open>False\<close> and raise nothing. The
  Node.js probe in that case logs the message that tells where to install Node.js and
  raises \<open>typer.Exit()\<close>; it never lets any other exception out.
\<close>

theorem probe_failure_false_node_exits:
  "(failed (fst (ext [''npm'', ''-v''] None (files w))) \<longrightarrow>
      fst (check_for_npm ext w) = Inr (PyBool False))
   \<and> (failed (fst (ext [''playwright'', ''--version''] None (files w))) \<longrightarrow>
      fst (check_for_playwright ext w) = Inr (PyBool False))
   \<and> (failed (fst (ext [''cypress'', ''--version''] None (files w))) \<longrightarrow>
      fst (check_for_cypress ext w) = Inr (PyBool False))
   \<and> (failed (fst (ext [''node'', ''-v''] None (files w))) \<longrightarrow>
      fst (check_for_node ext w) = Inl (TyperExit 0)
      \<and> (\<exists>e. last (trace (snd (check_for_node ext w))) =
            LogError ''Could not find Node.js installation. Please install it from https://nodejs.org : '' e))
   \<and> (\<forall>e. fst (check_for_node ext w) = Inl e \<longrightarrow> e = TyperExit 0)"
proof (intro conjI impI allI)
  assume f: "failed (fst (ext [''npm'', ''-v''] None (files w)))"
  show "fst (check_for_npm ext w) = Inr (PyBool False)"
    unfolding check_for_npm_def
    by (rule false_on_failure_caught)
      (rule version_query_failed [where ext = ext and w = w, OF f])
next
  assume f: "failed (fst (ext [''playwright'', ''--version''] None (files w)))"
  show "fst (check_for_playwright ext w) = Inr (PyBool False)"
    unfolding check_for_playwright_def
    by (rule false_on_failure_caught)
      (rule version_query_failed [where ext = ext and w = w, OF f])
next
  assume f: "failed (fst (ext [''cypress'', ''--version''] None (files w)))"
  show "fst (check_for_cypress ext w) = Inr (PyBool False)"
    unfolding check_for_cypress_def
    by (rule false_on_failure_caught)
      (rule version_query_failed [where ext = ext and w = w, OF f])
next
  assume f: "failed (fst (ext [''node'', ''-v''] None (files w)))"
  from version_query_failed [where ext = ext and w = w, OF f, of "''Node.js''" "''node''"]
  obtain e where "fst (version_query ext ''Node.js'' ''node'' [''node'', ''-v''] w) = Inl e"
    by (elim disjE) (rule that, assumption)+
  from check_for_node_exits [OF this]
  show "fst (check_for_node ext w) = Inl (TyperExit 0)" by (rule conjunct1)
next
  assume f: "failed (fst (ext [''node'', ''-v''] None (files w)))"
  from version_query_failed [where ext = ext and w = w, OF f, of "''Node.js''" "''node''"]
  obtain e where "fst (version_query ext ''Node.js'' ''node'' [''node'', ''-v''] w) = Inl e"
    by (elim disjE) (rule that, assumption)+
  from check_for_node_exits [OF this]
  have "last (trace (snd (check_for_node ext w))) =
      LogError ''Could not find Node.js installation. Please install it from https://nodejs.org : '' e"
    by simp
  then show "\<exists>e. last (trace (snd (check_for_node ext w))) =
      LogError ''Could not find Node.js installation. Please install it from https://nodejs.org : '' e"
    by (rule exI)
next
  fix e assume "fst (check_for_node ext w) = Inl e"
  then show "e = TyperExit 0" by (rule check_for_node_only_exit)
qed


theorem probe_failure_false_node_exits_witness:
  "fst (check_for_npm os_nothing_installed world_with_tests) = Inr (PyBool False)
   \<and> fst (check_for_playwright os_nothing_installed world_with_tests) = Inr (PyBool False)
   \<and> fst (check_for_cypress os_nothing_installed world_with_tests) = Inr (PyBool False)
   \<and> fst (check_for_node os_nothing_installed world_with_tests) = Inl (TyperExit 0)"
proof -
  have f: "failed (fst (os_nothing_installed cmd None (files world_with_tests)))" for cmd
    by (simp add: os_nothing_installed_def)
  note r = probe_failure_false_node_exits
    [where ext = os_nothing_installed and w = world_with_tests]
  note npm = r [THEN conjunct1, rule_format, OF f]
  note pw = r [THEN conjunct2, THEN conjunct1, rule_format, OF f]
  note cy = r [THEN conjunct2, THEN conjunct2, THEN conjunct1, rule_format, OF f]
  note node = r [THEN conjunct2, THEN conjunct2, THEN conjunct2, THEN conjunct1, rule_format,
      OF f, THEN conjunct1]
  from npm pw cy node show ?thesis by (intro conjI)
qed

lemma browser_step_failure:
  assumes "failed (fst (ext cmd (Some d) (files w)))"
  shows "fst (false_on_failure (returning v (seq [emit ev, subprocess_run_check ext cmd d] w)))
           = Inr (PyBool False)"
proof (cases "ext cmd (Some d) (files w)")
  case (Pair r f')
  with assms show ?thesis
    by (cases r)
      (simp_all add: emit_def subprocess_run_check_def returning_def false_on_failure_def)
qed

lemma browser_steps_false_on_failure:
  "failed (fst (ext [''playwright'', ''install'', ''chromium''] (Some d) (files w))) \<Longrightarrow>
     fst (check_for_playwright_browsers ext d w) = Inr (PyBool False)"
  "failed (fst (ext [''npx'', ''--yes'', ''cypress'', ''install''] (Some d) (files w))) \<Longrightarrow>
     fst (check_for_cypress_installation ext d w) = Inr (PyBool False)"
  unfolding check_for_playwright_browsers_def check_for_cypress_installation_def
  by (rule browser_step_failure [where ext = ext and w = w], assumption)+

text \<open>
  C9. The claim: the Cypress step returns what the Playwright step returns, on success
  as on failure. On failure both return \<open>False\<close> (the lemma above). On success the
  Playwright step returns \<open>True\<close>, and the Cypress step, which has no \<open>return True\<close>,
  returns \<open>None\<close>.
\<close>

theorem cypress_install_check_returns_none:
  "fst (check_for_playwright_browsers os_all_succeed tests_dir world_with_tests) = Inr (PyBool True)
   \<and> fst (check_for_cypress_installation os_all_succeed tests_dir world_with_tests) = Inr PyNone"
  by (simp add: check_for_playwright_browsers_def check_for_cypress_installation_def
      os_all_succeed_def emit_def subprocess_run_check_def returning_def false_on_failure_def)

section \<open>The scaffolders: preparing the directory\<close>

lemma wf_absent_below:
  assumes "wf_fs f" and "f d = None" and "d \<noteq> []"
  shows "f (d @ rest) = None"
proof (induction rest rule: rev_induct)
  case Nil
  from assms(2) show ?case by simp
next
  case (snoc x xs)
  show ?case
  proof (rule ccontr)
    assume "f (d @ xs @ [x]) \<noteq> None"
    with assms(1) have "is_dir f (butlast (d @ xs @ [x]))"
      by (simp add: wf_fs_def)
    then have "is_dir f (d @ xs)"
      by (simp add: butlast_append)
    with assms(3) snoc show False
      by (simp add: is_dir_def)
  qed
qed

lemma wf_absent_children:
  assumes "wf_fs f" and "f d = None" and "d \<noteq> []" and "take (length d) p = d"
  shows "f p = None"
proof -
  have "p = d @ drop (length d) p"
    using assms(4) append_take_drop_id [of "length d" p] by simp
  then show ?thesis
    using wf_absent_below [OF assms(1-3), of "drop (length d) p"] by simp
qed

lemma butlast_neq_self: "d \<noteq> [] \<Longrightarrow> butlast d \<noteq> d"
proof
  assume n: "d \<noteq> []" and b: "butlast d = d"
  from n have "butlast d @ [last d] = d" by simp
  with b have "d @ [last d] = d" by simp
  then show False by simp
qed

lemma mkdir_ok:
  assumes "is_dir f (butlast d)" and "\<forall>t. f d \<noteq> Some (File t)" and "files w = f"
  shows "mkdir_exist_ok d w =
     (None, w\<lparr>files := (if d = [] then f else f(d \<mapsto> Dir)), trace := trace w @ [Mkdir d]\<rparr>)"
proof (cases "d = []")
  case True
  with assms(3) show ?thesis by (simp add: mkdir_exist_ok_def Let_def)
next
  case False
  from assms(1) have e: "exists_path f (butlast d)"
    by (auto simp: is_dir_def exists_path_def)
  show ?thesis
  proof (cases "f d")
    case None
    with False e assms show ?thesis by (simp add: mkdir_exist_ok_def Let_def)
  next
    case (Some n)
    with assms(2) have n: "n = Dir" by (cases n) auto
    with Some have "f(d \<mapsto> Dir) = f" by (simp add: fun_upd_idem)
    with False e assms Some n show ?thesis by (simp add: mkdir_exist_ok_def Let_def)
  qed
qed

lemma prepare_dir_ok:
  assumes "is_dir (files w) (butlast d)" and "\<forall>t. files w d \<noteq> Some (File t)"
  shows "seq (prepare_dir d cl) w =
     (None, w\<lparr>files := prepared d cl (files w),
              trace := trace w @ (if cl then [Rmtree d] else []) @ [Mkdir d]\<rparr>)"
proof (cases cl)
  case False
  with mkdir_ok [OF assms refl] show ?thesis
    by (simp add: prepare_dir_def prepared_def)
next
  case True
  let ?f1 = "if is_dir (files w) d
             then (\<lambda>p. if take (length d) p = d then None else files w p) else files w"
  let ?w1 = "w\<lparr>files := ?f1, trace := trace w @ [Rmtree d]\<rparr>"
  have p: "is_dir ?f1 (butlast d)"
    using assms(1) by (cases "d = []") (simp_all add: is_dir_def butlast_neq_self)
  have n: "\<forall>t. ?f1 d \<noteq> Some (File t)"
    using assms(2) by simp
  have "mkdir_exist_ok d ?w1 =
     (None, ?w1\<lparr>files := (if d = [] then ?f1 else ?f1(d \<mapsto> Dir)),
                trace := trace ?w1 @ [Mkdir d]\<rparr>)"
    by (rule mkdir_ok [OF p n]) simp
  with True show ?thesis
    by (simp add: prepare_dir_def prepared_def delete_entire_dir_def)
qed

lemma prepared_is_dir: "is_dir (prepared d cl f) d"
  by (simp add: prepared_def is_dir_def Let_def)

lemma prepared_outside: "take (length d) p \<noteq> d \<Longrightarrow> prepared d cl f p = f p"
  by (auto simp: prepared_def Let_def)

lemma prepared_clean_below:
  assumes "wf_fs f" and "length d < length p" and "take (length d) p = d"
    and "\<forall>t. f d \<noteq> Some (File t)"
  shows "prepared d True f p = None"
proof (cases "is_dir f d")
  case True
  with assms(2,3) show ?thesis by (auto simp: prepared_def Let_def)
next
  case False
  then have d: "d \<noteq> []" "f d \<noteq> Some Dir" by (auto simp: is_dir_def)
  with assms(4) have "f d = None" by (cases "f d") (auto, metis node.exhaust)
  from wf_absent_children [OF assms(1) this d(1) assms(3)] have "f p = None" .
  with False assms(2) show ?thesis by (auto simp: prepared_def Let_def)
qed

lemma prepared_clean_empty:
  assumes "wf_fs f" and "\<forall>t. f d \<noteq> Some (File t)"
  shows "empty_dir (prepared d True f) d"
  using prepared_clean_below [OF assms(1) _ _ assms(2)]
  by (simp add: empty_dir_def prepared_is_dir)


lemma prepare_dir_trace:
  "trace (snd (seq (prepare_dir d cl) w)) = trace w @ (if cl then [Rmtree d] else []) @ [Mkdir d]"
  by (simp add: prepare_dir_def delete_entire_dir_def mkdir_exist_ok_def Let_def
      split: option.splits node.splits)

lemma python_steps:
  "scaffold_playwright ext d ''python'' cl = seq (prepare_dir d cl)"
  "scaffold_cypress ext d ''python'' cl = seq (prepare_dir d cl)"
  by (simp_all add: scaffold_playwright_def scaffold_cypress_def playwright_steps_def
      cypress_steps_def)

text \<open>
  C6. For the language \<open>python\<close> both scaffolders are the preparation of the directory
  and nothing else: the cleanup when \<open>clean\<close> holds, then the creation. No file is
  written and no program is started, and the system \<open>ext\<close> is not consulted. When the
  parent of the test directory is a directory and the test directory is no file, the
  scaffolder returns, the directory is there, and nothing outside it has changed.
\<close>

theorem python_scaffold_only_prepares_dir:
  "scaffold_playwright ext d ''python'' cl w = seq (prepare_dir d cl) w
   \<and> scaffold_cypress ext d ''python'' cl w = seq (prepare_dir d cl) w
   \<and> trace (snd (seq (prepare_dir d cl) w))
       = trace w @ (if cl then [Rmtree d] else []) @ [Mkdir d]
   \<and> writes (trace (snd (seq (prepare_dir d cl) w))) = writes (trace w)
   \<and> commands (trace (snd (seq (prepare_dir d cl) w))) = commands (trace w)
   \<and> (is_dir (files w) (butlast d) \<and> (\<forall>t. files w d \<noteq> Some (File t)) \<longrightarrow>
        fst (seq (prepare_dir d cl) w) = None
        \<and> is_dir (files (snd (seq (prepare_dir d cl) w))) d
        \<and> (\<forall>p. take (length d) p \<noteq> d \<longrightarrow>
              files (snd (seq (prepare_dir d cl) w)) p = files w p))"
proof -
  have ok: "is_dir (files w) (butlast d) \<and> (\<forall>t. files w d \<noteq> Some (File t)) \<longrightarrow>
        fst (seq (prepare_dir d cl) w) = None
        \<and> is_dir (files (snd (seq (prepare_dir d cl) w))) d
        \<and> (\<forall>p. take (length d) p \<noteq> d \<longrightarrow>
              files (snd (seq (prepare_dir d cl) w)) p = files w p)"
  proof
    assume a: "is_dir (files w) (butlast d) \<and> (\<forall>t. files w d \<noteq> Some (File t))"
    then have "seq (prepare_dir d cl) w =
       (None, w\<lparr>files := prepared d cl (files w),
                trace := trace w @ (if cl then [Rmtree d] else []) @ [Mkdir d]\<rparr>)"
      using prepare_dir_ok by blast
    then show "fst (seq (prepare_dir d cl) w) = None
        \<and> is_dir (files (snd (seq (prepare_dir d cl) w))) d
        \<and> (\<forall>p. take (length d) p \<noteq> d \<longrightarrow>
              files (snd (seq (prepare_dir d cl) w)) p = files w p)"
      by (simp add: prepared_is_dir prepared_outside)
  qed
  show ?thesis
    using ok by (simp add: python_steps prepare_dir_trace writes_append commands_append)
qed

lemma steps_after_prepare:
  assumes "seq (prepare_dir d cl) w = (None, w1)"
  shows "scaffold_playwright ext d lang cl w = seq (playwright_steps ext d lang) w1"
    and "scaffold_cypress ext d lang cl w = seq (cypress_steps ext d lang) w1"
  using assms by (simp_all add: scaffold_playwright_def scaffold_cypress_def seq_append)

lemma delete_entire_dir_removes:
  assumes "wf_fs (files w)" and "\<forall>t. files w d \<noteq> Some (File t)" and "take (length d) p = d"
  shows "files (snd (delete_entire_dir d w)) p = None"
proof (cases "is_dir (files w) d")
  case True
  with assms(3) show ?thesis by (simp add: delete_entire_dir_def)
next
  case False
  then have d: "d \<noteq> []" "files w d \<noteq> Some Dir" by (auto simp: is_dir_def)
  with assms(2) have "files w d = None" by (cases "files w d") (auto, metis node.exhaust)
  from wf_absent_children [OF assms(1) this d(1) assms(3)] False show ?thesis
    by (simp add: delete_entire_dir_def)
qed

text \<open>
  C7. With \<open>clean\<close> true, on a test directory that is a directory with any contents or
  is absent, below a parent that exists: the deletion raises nothing and leaves neither
  the directory nor anything below it; the creation then succeeds, so that the world
  \<open>w1\<close> in which the steps of either scaffolder start has the directory, empty, the
  trace extended by the deletion and the creation in this order, and everything outside
  the directory as before.
\<close>

theorem clean_scaffold_starts_in_empty_dir:
  assumes "wf_fs (files w)" and "is_dir (files w) (butlast d)"
    and "\<forall>t. files w d \<noteq> Some (File t)"
    and "w1 = snd (seq (prepare_dir d True) w)"
  shows "fst (delete_entire_dir d w) = None
       \<and> (\<forall>p. take (length d) p = d \<longrightarrow> files (snd (delete_entire_dir d w)) p = None)
       \<and> seq (prepare_dir d True) w = (None, w1)
       \<and> trace w1 = trace w @ [Rmtree d, Mkdir d]
       \<and> empty_dir (files w1) d
       \<and> (\<forall>p. take (length d) p \<noteq> d \<longrightarrow> files w1 p = files w p)
       \<and> scaffold_playwright ext d lang True w = seq (playwright_steps ext d lang) w1
       \<and> scaffold_cypress ext d lang True w = seq (cypress_steps ext d lang) w1"
proof -
  have p: "seq (prepare_dir d True) w =
       (None, w\<lparr>files := prepared d True (files w), trace := trace w @ [Rmtree d, Mkdir d]\<rparr>)"
    using prepare_dir_ok [OF assms(2,3), of True] by simp
  with assms(4) have w1: "seq (prepare_dir d True) w = (None, w1)"
    "files w1 = prepared d True (files w)" "trace w1 = trace w @ [Rmtree d, Mkdir d]"
    by simp_all
  have 1: "fst (delete_entire_dir d w) = None"
    by (simp add: delete_entire_dir_def)
  have 2: "\<forall>p. take (length d) p = d \<longrightarrow> files (snd (delete_entire_dir d w)) p = None"
    using delete_entire_dir_removes [OF assms(1,3)] by blast
  have 5: "empty_dir (files w1) d"
    using prepared_clean_empty [OF assms(1,3)] by (simp add: w1(2))
  have 6: "\<forall>p. take (length d) p \<noteq> d \<longrightarrow> files w1 p = files w p"
    by (simp add: w1(2) prepared_outside)
  from 1 2 w1(1) w1(3) 5 6 steps_after_prepare [OF w1(1), of ext lang] show ?thesis
    by (intro conjI)
qed


lemma world_with_tests_wf: "wf_fs (files world_with_tests)"
  by (auto simp: wf_fs_def world_with_tests_def is_dir_def split: if_splits)

lemma world_with_tests_dir:
  "is_dir (files world_with_tests) (butlast tests_dir)"
  "\<forall>t. files world_with_tests tests_dir \<noteq> Some (File t)"
  by (simp_all add: world_with_tests_def tests_dir_def is_dir_def)

theorem python_scaffold_only_prepares_dir_witness:
  "scaffold_cypress os_nothing_installed tests_dir ''python'' True world_with_tests
     = seq (prepare_dir tests_dir True) world_with_tests
   \<and> fst (seq (prepare_dir tests_dir True) world_with_tests) = None
   \<and> trace (snd (seq (prepare_dir tests_dir True) world_with_tests))
       = [Rmtree tests_dir, Mkdir tests_dir]
   \<and> commands (trace (snd (seq (prepare_dir tests_dir True) world_with_tests))) = []"
  using python_scaffold_only_prepares_dir
    [where ext = os_nothing_installed and d = tests_dir and cl = True and w = world_with_tests]
    world_with_tests_dir
  by (simp add: world_with_tests_trace)

theorem clean_scaffold_starts_in_empty_dir_witness:
  "seq (prepare_dir tests_dir True) world_with_tests
     = (None, snd (seq (prepare_dir tests_dir True) world_with_tests))
   \<and> empty_dir (files (snd (seq (prepare_dir tests_dir True) world_with_tests))) tests_dir
   \<and> trace (snd (seq (prepare_dir tests_dir True) world_with_tests))
       = [Rmtree tests_dir, Mkdir tests_dir]"
  using clean_scaffold_starts_in_empty_dir
    [OF world_with_tests_wf world_with_tests_dir refl, where ext = os_nothing_installed]
  by (simp add: world_with_tests_trace)

section \<open>The scaffolders: the files of a Cypress project\<close>

lemma write_file_ok:
  assumes "is_dir (files w) d" and "files w (d @ [n]) \<noteq> Some Dir"
  shows "write_file (d @ [n]) t w =
     (None, w\<lparr>files := (files w)(d @ [n] \<mapsto> File t),
              trace := trace w @ [WriteFile (d @ [n]) t]\<rparr>)"
  using assms by (auto simp: write_file_def Let_def is_dir_def exists_path_def)

lemma cypress_files_typescript:
  assumes "is_dir (files w1) d"
    and "files w1 (d @ [''package.json'']) \<noteq> Some Dir"
    and "files w1 (d @ [''.gitignore'']) \<noteq> Some Dir"
    and "files w1 (d @ [''cypress.config.ts'']) \<noteq> Some Dir"
    and "files w1 (d @ [''tsconfig.json'']) \<noteq> Some Dir"
  shows "seq (cypress_files d ''typescript'') w1 =
     (None,
      w1\<lparr>files := (files w1)
           (d @ [''package.json''] \<mapsto> File package_json_text,
            d @ [''.gitignore''] \<mapsto> File gitignore_text,
            d @ [''cypress.config.ts''] \<mapsto> File cypress_config_ts_text,
            d @ [''tsconfig.json''] \<mapsto> File tsconfig_json_text),
         trace := trace w1 @
           [LogInfo ''Setting up cypress environment.'',
            WriteFile (d @ [''package.json'']) package_json_text,
            LogInfo ''Adding a .gitignore file.'',
            WriteFile (d @ [''.gitignore'']) gitignore_text,
            LogInfo ''Adding a cypress.config.ts file.'',
            WriteFile (d @ [''cypress.config.ts'']) cypress_config_ts_text,
            LogInfo ''Adding a tsconfig.json file.'',
            WriteFile (d @ [''tsconfig.json'']) tsconfig_json_text]\<rparr>)"
  using assms
  by (simp add: cypress_files_def emit_def write_file_ok is_dir_def)

lemma cypress_files_javascript:
  assumes "is_dir (files w1) d"
    and "files w1 (d @ [''package.json'']) \<noteq> Some Dir"
    and "files w1 (d @ [''.gitignore'']) \<noteq> Some Dir"
    and "files w1 (d @ [''cypress.config.js'']) \<noteq> Some Dir"
  shows "seq (cypress_files d ''javascript'') w1 =
     (None,
      w1\<lparr>files := (files w1)
           (d @ [''package.json''] \<mapsto> File package_json_text,
            d @ [''.gitignore''] \<mapsto> File gitignore_text,
            d @ [''cypress.config.js''] \<mapsto> File cypress_config_js_text),
         trace := trace w1 @
           [LogInfo ''Setting up cypress environment.'',
            WriteFile (d @ [''package.json'']) package_json_text,
            LogInfo ''Adding a .gitignore file.'',
            WriteFile (d @ [''.gitignore'']) gitignore_text,
            LogInfo ''Adding a cypress.config.js file.'',
            WriteFile (d @ [''cypress.config.js'']) cypress_config_js_text]\<rparr>)"
  using assms
  by (simp add: cypress_files_def emit_def write_file_ok is_dir_def)

lemma cypress_install_trace:
  "writes (trace (snd (seq (cypress_install ext d) w2))) = writes (trace w2)"
  "commands (trace (snd (seq (cypress_install ext d) w2))) = commands (trace w2) @ [[''npm'', ''install'']]"
  by (simp_all add: cypress_install_def emit_def subprocess_run_def Let_def writes_append
      commands_append split: prod.splits proc_result.splits)

lemma prepared_target:
  assumes "wf_fs f" and "\<forall>t. f d \<noteq> Some (File t)" and "cl \<or> f (d @ [n]) \<noteq> Some Dir"
  shows "prepared d cl f (d @ [n]) \<noteq> Some Dir"
proof (cases cl)
  case True
  with prepared_clean_below [OF assms(1) _ _ assms(2), of "d @ [n]"] show ?thesis by simp
next
  case False
  with assms(3) show ?thesis by (auto simp: prepared_def)
qed


text \<open>
  C5. On a well-formed file system where the parent of the test directory is a
  directory and the test directory is no file, and where, when \<open>clean\<close> is false, none of
  the file names is taken by a directory: \<open>scaffold_cypress\<close> for \<open>typescript\<close> writes
  \<open>package.json\<close>, \<open>.gitignore\<close>, \<open>cypress.config.ts\<close> and \<open>tsconfig.json\<close>, these four
  and in this order, each with its fixed text, and starts \<open>npm install\<close>, its only
  program, in the world \<open>ts\<close> that has them; for \<open>javascript\<close> it writes
  \<open>package.json\<close>, \<open>.gitignore\<close> and \<open>cypress.config.js\<close>, these three, and no
  \<open>tsconfig.json\<close>. With \<open>clean\<close> true the files named are all there is in the
  directory when the installation starts.
\<close>

theorem cypress_scaffold_writes_files:
  assumes "wf_fs (files w)" and "is_dir (files w) (butlast d)"
    and "\<forall>t. files w d \<noteq> Some (File t)"
    and "cl \<or> (\<forall>n \<in> set [''package.json'', ''.gitignore'', ''cypress.config.ts'',
                              ''tsconfig.json'', ''cypress.config.js''].
                  files w (d @ [n]) \<noteq> Some Dir)"
    and "ts = snd (seq (prepare_dir d cl @ cypress_files d ''typescript'') w)"
    and "js = snd (seq (prepare_dir d cl @ cypress_files d ''javascript'') w)"
  shows "seq (prepare_dir d cl @ cypress_files d ''typescript'') w = (None, ts)
       \<and> scaffold_cypress ext d ''typescript'' cl w = seq (cypress_install ext d) ts
       \<and> writes (trace ts) = writes (trace w) @
            [(d @ [''package.json''], package_json_text),
             (d @ [''.gitignore''], gitignore_text),
             (d @ [''cypress.config.ts''], cypress_config_ts_text),
             (d @ [''tsconfig.json''], tsconfig_json_text)]
       \<and> commands (trace ts) = commands (trace w)
       \<and> writes (trace (snd (scaffold_cypress ext d ''typescript'' cl w))) = writes (trace ts)
       \<and> commands (trace (snd (scaffold_cypress ext d ''typescript'' cl w)))
            = commands (trace w) @ [[''npm'', ''install'']]
       \<and> files ts (d @ [''package.json'']) = Some (File package_json_text)
       \<and> files ts (d @ [''.gitignore'']) = Some (File gitignore_text)
       \<and> files ts (d @ [''cypress.config.ts'']) = Some (File cypress_config_ts_text)
       \<and> files ts (d @ [''tsconfig.json'']) = Some (File tsconfig_json_text)
       \<and> (cl \<longrightarrow> (\<forall>p. length d < length p \<and> take (length d) p = d \<longrightarrow>
              (files ts p \<noteq> None) =
              (p \<in> {d @ [''package.json''], d @ [''.gitignore''], d @ [''cypress.config.ts''],
                     d @ [''tsconfig.json'']})))
       \<and> seq (prepare_dir d cl @ cypress_files d ''javascript'') w = (None, js)
       \<and> scaffold_cypress ext d ''javascript'' cl w = seq (cypress_install ext d) js
       \<and> writes (trace js) = writes (trace w) @
            [(d @ [''package.json''], package_json_text),
             (d @ [''.gitignore''], gitignore_text),
             (d @ [''cypress.config.js''], cypress_config_js_text)]
       \<and> commands (trace js) = commands (trace w)
       \<and> writes (trace (snd (scaffold_cypress ext d ''javascript'' cl w))) = writes (trace js)
       \<and> commands (trace (snd (scaffold_cypress ext d ''javascript'' cl w)))
            = commands (trace w) @ [[''npm'', ''install'']]
       \<and> files js (d @ [''package.json'']) = Some (File package_json_text)
       \<and> files js (d @ [''.gitignore'']) = Some (File gitignore_text)
       \<and> files js (d @ [''cypress.config.js'']) = Some (File cypress_config_js_text)
       \<and> (cl \<longrightarrow> (\<forall>p. length d < length p \<and> take (length d) p = d \<longrightarrow>
              (files js p \<noteq> None) =
              (p \<in> {d @ [''package.json''], d @ [''.gitignore''], d @ [''cypress.config.js'']})))"
proof -
  let ?f0 = "prepared d cl (files w)"
  let ?w1 = "w\<lparr>files := ?f0, trace := trace w @ (if cl then [Rmtree d] else []) @ [Mkdir d]\<rparr>"
  have prep: "seq (prepare_dir d cl) w = (None, ?w1)"
    by (rule prepare_dir_ok [OF assms(2,3)])
  have dir: "is_dir (files ?w1) d"
    by (simp add: prepared_is_dir)
  have tgt: "files ?w1 (d @ [n]) \<noteq> Some Dir"
    if "n \<in> set [''package.json'', ''.gitignore'', ''cypress.config.ts'', ''tsconfig.json'',
                  ''cypress.config.js'']" for n
  proof -
    from assms(4) that have "cl \<or> files w (d @ [n]) \<noteq> Some Dir" by blast
    from prepared_target [OF assms(1,3) this] show ?thesis by simp
  qed
  have below: "?f0 p = None" if "cl" "length d < length p" "take (length d) p = d" for p
    using prepared_clean_below [OF assms(1) that(2,3) assms(3)] that(1) by simp
  note T = cypress_files_typescript [OF dir tgt tgt tgt tgt, simplified]
  note J = cypress_files_javascript [OF dir tgt tgt tgt, simplified]
  have ts: "seq (prepare_dir d cl @ cypress_files d ''typescript'') w
              = seq (cypress_files d ''typescript'') ?w1"
    and js: "seq (prepare_dir d cl @ cypress_files d ''javascript'') w
              = seq (cypress_files d ''javascript'') ?w1"
    by (simp_all add: seq_append prep)
  have ts_eq: "seq (prepare_dir d cl @ cypress_files d ''typescript'') w = (None, ts)"
    by (simp add: assms(5) ts T)
  have js_eq: "seq (prepare_dir d cl @ cypress_files d ''javascript'') w = (None, js)"
    by (simp add: assms(6) js J)
  have ts_w: "ts = snd (seq (cypress_files d ''typescript'') ?w1)"
    by (simp add: assms(5) ts)
  have js_w: "js = snd (seq (cypress_files d ''javascript'') ?w1)"
    by (simp add: assms(6) js)
  have sc_ts: "scaffold_cypress ext d ''typescript'' cl w = seq (cypress_install ext d) ts"
    using ts_eq
    by (simp add: scaffold_cypress_def cypress_steps_def seq_append [of "prepare_dir d cl @ cypress_files d ''typescript''", simplified])
  have sc_js: "scaffold_cypress ext d ''javascript'' cl w = seq (cypress_install ext d) js"
    using js_eq
    by (simp add: scaffold_cypress_def cypress_steps_def seq_append [of "prepare_dir d cl @ cypress_files d ''javascript''", simplified])
  have tr_ts: "writes (trace ts) = writes (trace w) @
            [(d @ [''package.json''], package_json_text),
             (d @ [''.gitignore''], gitignore_text),
             (d @ [''cypress.config.ts''], cypress_config_ts_text),
             (d @ [''tsconfig.json''], tsconfig_json_text)]"
    "commands (trace ts) = commands (trace w)"
    by (simp_all add: ts_w T writes_append commands_append)
  have tr_js: "writes (trace js) = writes (trace w) @
            [(d @ [''package.json''], package_json_text),
             (d @ [''.gitignore''], gitignore_text),
             (d @ [''cypress.config.js''], cypress_config_js_text)]"
    "commands (trace js) = commands (trace w)"
    by (simp_all add: js_w J writes_append commands_append)
  have f_ts: "files ts (d @ [''package.json'']) = Some (File package_json_text)"
    "files ts (d @ [''.gitignore'']) = Some (File gitignore_text)"
    "files ts (d @ [''cypress.config.ts'']) = Some (File cypress_config_ts_text)"
    "files ts (d @ [''tsconfig.json'']) = Some (File tsconfig_json_text)"
    by (simp_all add: ts_w T)
  have f_js: "files js (d @ [''package.json'']) = Some (File package_json_text)"
    "files js (d @ [''.gitignore'']) = Some (File gitignore_text)"
    "files js (d @ [''cypress.config.js'']) = Some (File cypress_config_js_text)"
    by (simp_all add: js_w J)
  have fs_ts: "files ts = ?f0
           (d @ [''package.json''] \<mapsto> File package_json_text,
            d @ [''.gitignore''] \<mapsto> File gitignore_text,
            d @ [''cypress.config.ts''] \<mapsto> File cypress_config_ts_text,
            d @ [''tsconfig.json''] \<mapsto> File tsconfig_json_text)"
    by (simp add: ts_w T)
  have fs_js: "files js = ?f0
           (d @ [''package.json''] \<mapsto> File package_json_text,
            d @ [''.gitignore''] \<mapsto> File gitignore_text,
            d @ [''cypress.config.js''] \<mapsto> File cypress_config_js_text)"
    by (simp add: js_w J)
  have ex_ts: "cl \<longrightarrow> (\<forall>p. length d < length p \<and> take (length d) p = d \<longrightarrow>
              (files ts p \<noteq> None) =
              (p \<in> {d @ [''package.json''], d @ [''.gitignore''], d @ [''cypress.config.ts''],
                     d @ [''tsconfig.json'']}))"
    using below by (auto simp: fs_ts)
  have ex_js: "cl \<longrightarrow> (\<forall>p. length d < length p \<and> take (length d) p = d \<longrightarrow>
              (files js p \<noteq> None) =
              (p \<in> {d @ [''package.json''], d @ [''.gitignore''], d @ [''cypress.config.js'']}))"
    using below by (auto simp: fs_js)
  have i_ts: "writes (trace (snd (scaffold_cypress ext d ''typescript'' cl w))) = writes (trace ts)"
    "commands (trace (snd (scaffold_cypress ext d ''typescript'' cl w)))
       = commands (trace w) @ [[''npm'', ''install'']]"
    by (simp_all add: sc_ts cypress_install_trace tr_ts)
  have i_js: "writes (trace (snd (scaffold_cypress ext d ''javascript'' cl w))) = writes (trace js)"
    "commands (trace (snd (scaffold_cypress ext d ''javascript'' cl w)))
       = commands (trace w) @ [[''npm'', ''install'']]"
    by (simp_all add: sc_js cypress_install_trace tr_js)
  from ts_eq sc_ts tr_ts i_ts f_ts ex_ts js_eq sc_js tr_js i_js f_js ex_js
  show ?thesis by (intro conjI)
qed


theorem cypress_scaffold_writes_files_witness:
  "writes (trace (snd (scaffold_cypress os_all_succeed tests_dir ''typescript'' True
      world_with_tests)))
     = [(tests_dir @ [''package.json''], package_json_text),
        (tests_dir @ [''.gitignore''], gitignore_text),
        (tests_dir @ [''cypress.config.ts''], cypress_config_ts_text),
        (tests_dir @ [''tsconfig.json''], tsconfig_json_text)]
   \<and> writes (trace (snd (scaffold_cypress os_all_succeed tests_dir ''javascript'' True
      world_with_tests)))
     = [(tests_dir @ [''package.json''], package_json_text),
        (tests_dir @ [''.gitignore''], gitignore_text),
        (tests_dir @ [''cypress.config.js''], cypress_config_js_text)]
   \<and> commands (trace (snd (scaffold_cypress os_all_succeed tests_dir ''typescript'' True
      world_with_tests))) = [[''npm'', ''install'']]"
proof -
  let ?ts = "snd (seq (prepare_dir tests_dir True @ cypress_files tests_dir ''typescript'')
                world_with_tests)"
  let ?js = "snd (seq (prepare_dir tests_dir True @ cypress_files tests_dir ''javascript'')
                world_with_tests)"
  have c: "True \<or> (\<forall>n \<in> set [''package.json'', ''.gitignore'', ''cypress.config.ts'',
                              ''tsconfig.json'', ''cypress.config.js''].
                  files world_with_tests (tests_dir @ [n]) \<noteq> Some Dir)"
    by simp
  note r = cypress_scaffold_writes_files
    [OF world_with_tests_wf world_with_tests_dir c refl refl, where ext = os_all_succeed]
  from r have 1: "writes (trace (snd (scaffold_cypress os_all_succeed tests_dir ''typescript''
      True world_with_tests))) = writes (trace ?ts)"
    by blast
  from r have 2: "writes (trace ?ts) = writes (trace world_with_tests) @
       [(tests_dir @ [''package.json''], package_json_text),
        (tests_dir @ [''.gitignore''], gitignore_text),
        (tests_dir @ [''cypress.config.ts''], cypress_config_ts_text),
        (tests_dir @ [''tsconfig.json''], tsconfig_json_text)]"
    by blast
  from r have 3: "writes (trace (snd (scaffold_cypress os_all_succeed tests_dir ''javascript''
      True world_with_tests))) = writes (trace ?js)"
    by blast
  from r have 4: "writes (trace ?js) = writes (trace world_with_tests) @
       [(tests_dir @ [''package.json''], package_json_text),
        (tests_dir @ [''.gitignore''], gitignore_text),
        (tests_dir @ [''cypress.config.js''], cypress_config_js_text)]"
    by blast
  from r have 5: "commands (trace (snd (scaffold_cypress os_all_succeed tests_dir ''typescript''
      True world_with_tests))) = commands (trace world_with_tests) @ [[''npm'', ''install'']]"
    by blast
  show ?thesis
    by (simp add: 1 2 3 4 5 world_with_tests_trace)
qed

end
